theory Spec2Isabelle
  imports Main "HOL-Library.Sublist" "HOL-Library.Signed_Division" "HOL-Library.Monad_Syntax"
begin

section \<open>The schema IR read by the Swift generator\<close>

text \<open>
  The generator of \<^verbatim>\<open>src/idl_gen_swift.cpp\<close> reads the parser's IR (declared in
  \<^verbatim>\<open>flatbuffers/idl.h\<close>) and appends Swift text to a \<^verbatim>\<open>std::string\<close>. The IR is
  modelled with the members the generator reads, under their source names. Pointers are
  \<open>option\<close> values: \<open>None\<close> is \<^verbatim>\<open>nullptr\<close>, and dereferencing it is an error of the model.
  Unsigned members are \<open>nat\<close>, \<^verbatim>\<open>int64_t\<close> enumerator values are \<open>int\<close>.
  The members \<^verbatim>\<open>value\<close> of a field and \<^verbatim>\<open>constant\<close> of a value are written \<open>value'\<close>
  and \<open>constant'\<close>, and a prime stands for the underscore that ends the name of a member
  of the parser.
\<close>

datatype BaseType =
    BASE_TYPE_NONE | BASE_TYPE_UTYPE | BASE_TYPE_BOOL
  | BASE_TYPE_CHAR | BASE_TYPE_UCHAR | BASE_TYPE_SHORT | BASE_TYPE_USHORT
  | BASE_TYPE_INT | BASE_TYPE_UINT | BASE_TYPE_LONG | BASE_TYPE_ULONG
  | BASE_TYPE_FLOAT | BASE_TYPE_DOUBLE
  | BASE_TYPE_STRING | BASE_TYPE_VECTOR | BASE_TYPE_STRUCT | BASE_TYPE_UNION

record EnumVal =
  name :: string
  "value" :: int
  doc_comment :: "string list"

text \<open>
  \<open>underlying_type\<close> is a \<^verbatim>\<open>Type\<close> in the source; \<^verbatim>\<open>GenEnum\<close> hands it to
  \<^verbatim>\<open>GenTypeBasic(_, false)\<close>, which reads its \<^verbatim>\<open>base_type\<close> only, so that is what is kept.
\<close>

record EnumDef =
  name :: string
  vals :: "EnumVal list"
  underlying_type :: BaseType
  generated :: bool
  doc_comment :: "string list"

text \<open>
  A \<^verbatim>\<open>StructDef\<close> is a table or (\<open>fixed\<close>) a struct. The type of a field points to the
  definition of the record it names; the generator follows that pointer into the fields
  of fixed records only, and reads the name and the \<open>fixed\<close> flag of a table.
  \<open>nested_flatbuffer\<close> is the constant of the attribute of that name, when the field has it.
\<close>

datatype StructDef = StructDef
    (name: string) (fields: "FieldDef list") (fixed: bool)
    (bytesize: nat) (minalign: nat) (sortbysize: bool) (has_key: bool)
    (generated: bool) (doc_comment: "string list")
and FieldDef = FieldDef
    (name: string) (value': Value) (padding: nat)
    (deprecated: bool) (required: bool) (key: bool)
    (doc_comment: "string list") (nested_flatbuffer: "string option")
and Value = Value (type: Type) (constant': string) (offset: nat)
and Type = Type
    (base_type: BaseType) (element: BaseType)
    (struct_def: "StructDef option") (enum_def: "EnumDef option")

record IDLOptions =
  one_file :: bool
  mutable_buffer :: bool

record Parser =
  opts :: IDLOptions
  root_struct_def' :: "StructDef option"
  file_identifier' :: string

text \<open>\<^verbatim>\<open>Type::VectorType()\<close>: the element type of a vector.\<close>

definition VectorType :: "Type \<Rightarrow> Type" where
  "VectorType t = Type (element t) BASE_TYPE_NONE (struct_def t) (enum_def t)"

subsection \<open>Helpers declared outside the generator\<close>

text \<open>
  Modelled from the spec: \<^verbatim>\<open>IsScalar\<close> of \<^verbatim>\<open>flatbuffers/idl.h\<close>, which is not part of
  the sources. The scalar kinds (an enum is a scalar with an enum definition) are inline;
  strings, vectors, records and unions are reached through an offset.
\<close>

definition IsScalar :: "BaseType \<Rightarrow> bool" where
  "IsScalar t = (t \<in> {BASE_TYPE_UTYPE, BASE_TYPE_BOOL, BASE_TYPE_CHAR, BASE_TYPE_UCHAR,
     BASE_TYPE_SHORT, BASE_TYPE_USHORT, BASE_TYPE_INT, BASE_TYPE_UINT, BASE_TYPE_LONG,
     BASE_TYPE_ULONG, BASE_TYPE_FLOAT, BASE_TYPE_DOUBLE})"

text \<open>
  Modelled from the spec: \<^verbatim>\<open>IsInteger\<close> of \<^verbatim>\<open>flatbuffers/idl.h\<close>, the scalar kinds that
  can be the underlying type of an enum: the scalars other than the floating-point ones.
\<close>

definition IsInteger :: "BaseType \<Rightarrow> bool" where
  "IsInteger t = (t \<in> {BASE_TYPE_UTYPE, BASE_TYPE_BOOL, BASE_TYPE_CHAR, BASE_TYPE_UCHAR,
     BASE_TYPE_SHORT, BASE_TYPE_USHORT, BASE_TYPE_INT, BASE_TYPE_UINT, BASE_TYPE_LONG,
     BASE_TYPE_ULONG})"

text \<open>
  Modelled from the spec: \<^verbatim>\<open>IsStruct\<close> of \<^verbatim>\<open>flatbuffers/idl.h\<close>: a struct is a record
  that is \<open>fixed\<close>. It reads \<^verbatim>\<open>type.struct_def->fixed\<close> when the base type is a record;
  \<open>None\<close> is the null dereference.
\<close>

definition IsStruct :: "Type \<Rightarrow> bool option" where
  "IsStruct t =
     (if base_type t = BASE_TYPE_STRUCT
      then map_option StructDef.fixed (struct_def t) else Some False)"

text \<open>
  The other helpers the generator calls are parameters of the model: the text helpers
  of \<^verbatim>\<open>util.h\<close> and \<^verbatim>\<open>code_generators.h\<close>, the \<^verbatim>\<open>STYPE\<close> column of the type table
  \<^verbatim>\<open>FLATBUFFERS_GEN_TYPES\<close>, the sizes of \<^verbatim>\<open>idl.h\<close>, and the lookup of the record a
  \<^verbatim>\<open>nested_flatbuffer\<close> attribute names (\<open>None\<close> when the parser does not know it).
  \<open>MakeCamel X s first\<close> is \<^verbatim>\<open>MakeCamel(s, first)\<close>, whose \<open>first\<close> defaults to true;
  \<open>GenComment X dc prefix\<close> is the text \<^verbatim>\<open>GenComment\<close> appends for the generator's
  comment configuration.
\<close>

record Externals =
  MakeCamel :: "string \<Rightarrow> bool \<Rightarrow> string"
  NumToString :: "int \<Rightarrow> string"
  StringToInt :: "string \<Rightarrow> int"
  GenComment :: "string list \<Rightarrow> string \<Rightarrow> string"
  swift_typename :: "BaseType \<Rightarrow> string"
  SizeOf :: "BaseType \<Rightarrow> nat"
  InlineSize :: "Type \<Rightarrow> nat"
  InlineAlignment :: "Type \<Rightarrow> nat"
  sizeof_largest_scalar_t :: nat
  nested_type_name :: "string \<Rightarrow> string option"


section \<open>Type mapper\<close>

text \<open>\<^verbatim>\<open>FunctionStart(upper)\<close> is \<^verbatim>\<open>tolower(upper)\<close> as a string (C locale).\<close>

definition tolower :: "char \<Rightarrow> char" where
  "tolower c =
     (if of_char (CHR ''A'') \<le> (of_char c :: nat) \<and> (of_char c :: nat) \<le> of_char (CHR ''Z'')
      then char_of (of_char c + (32::nat)) else c)"

definition FunctionStart :: "char \<Rightarrow> string" where
  "FunctionStart upper = [tolower upper]"

definition IsEnum :: "Type \<Rightarrow> bool" where
  "IsEnum t = (enum_def t \<noteq> None \<and> IsInteger (base_type t))"

text \<open>
  \<^verbatim>\<open>GenTypeBasic(type, enableLangOverrides)\<close>. Reading \<^verbatim>\<open>type.enum_def->name\<close> is guarded
  by \<^verbatim>\<open>IsEnum\<close>; reading \<^verbatim>\<open>type.struct_def->name\<close> is not guarded.
\<close>

definition GenTypeBasic :: "Externals \<Rightarrow> Type \<Rightarrow> bool \<Rightarrow> string option" where
  "GenTypeBasic X t enableLangOverrides =
     (if enableLangOverrides \<and> IsEnum t then map_option EnumDef.name (enum_def t)
      else if enableLangOverrides \<and> base_type t = BASE_TYPE_STRUCT
      then map_option (\<lambda>sd. ''Offset<'' @ StructDef.name sd @ ''>'') (struct_def t)
      else Some (swift_typename X (base_type t)))"

text \<open>
  The functions that descend into the element type of a vector recurse on
  \<^verbatim>\<open>type.VectorType()\<close>, whose own element type is \<^verbatim>\<open>BASE_TYPE_NONE\<close>: the depth is at
  most two.
\<close>

definition vdepth :: "Type \<Rightarrow> nat" where
  "vdepth t =
     (if base_type t = BASE_TYPE_VECTOR
      then (if element t = BASE_TYPE_VECTOR then 2 else 1) else 0)"

function GenTypeGet :: "Externals \<Rightarrow> Type \<Rightarrow> string option"
  and GenTypePointer :: "Externals \<Rightarrow> Type \<Rightarrow> string option" where
  "GenTypeGet X t =
     (if IsScalar (base_type t) then GenTypeBasic X t True else GenTypePointer X t)"
| "GenTypePointer X t =
     (if base_type t = BASE_TYPE_STRING then Some ''String''
      else if base_type t = BASE_TYPE_VECTOR then GenTypeGet X (VectorType t)
      else if base_type t = BASE_TYPE_STRUCT then map_option StructDef.name (struct_def t)
      else if base_type t = BASE_TYPE_UNION then Some ''TTable''
      else Some ''Table'')"
  by pat_completeness auto
termination
  by (relation "measure (\<lambda>a. case a of Inl (X, t) \<Rightarrow> 2 * vdepth t + 1
                                     | Inr (X, t) \<Rightarrow> 2 * vdepth t)")
     (auto simp: vdepth_def VectorType_def)

declare GenTypeGet.simps [simp del] GenTypePointer.simps [simp del]

text \<open>\<^verbatim>\<open>DestinationType\<close> is the identity in this generator.\<close>

definition DestinationType :: "Type \<Rightarrow> Type" where
  "DestinationType t = t"

definition GenOffsetType :: "StructDef \<Rightarrow> string" where
  "GenOffsetType struct_def' = ''Offset<'' @ StructDef.name struct_def' @ ''>''"

definition GenOffsetConstruct :: "StructDef \<Rightarrow> string \<Rightarrow> string" where
  "GenOffsetConstruct struct_def' variable_name =
     ''Offset<'' @ StructDef.name struct_def' @ ''>('' @ variable_name @ '')''"

definition GenVectorOffsetType :: string where
  "GenVectorOffsetType = ''VectorOffset''"

definition GenTypeNameDest :: "Externals \<Rightarrow> Type \<Rightarrow> string option" where
  "GenTypeNameDest X t = GenTypeGet X (DestinationType t)"

function DestinationCast :: "Type \<Rightarrow> string option" where
  "DestinationCast t =
     (if base_type t = BASE_TYPE_VECTOR then DestinationCast (VectorType t)
      else if IsEnum t then map_option (\<lambda>e. EnumDef.name e @ ''(rawValue: '') (enum_def t)
      else Some [])"
  by pat_completeness auto
termination
  by (relation "measure vdepth") (auto simp: vdepth_def VectorType_def)

declare DestinationCast.simps [simp del]

text \<open>For a vector the source's mask is the element's \<^emph>\<open>cast\<close>.\<close>

definition DestinationMask :: "Type \<Rightarrow> string option" where
  "DestinationMask t =
     (if base_type t = BASE_TYPE_VECTOR then DestinationCast (VectorType t)
      else if IsEnum t then Some '')!''
      else Some [])"

function SourceCast :: "Type \<Rightarrow> bool \<Rightarrow> string" where
  "SourceCast t castFromDest =
     (if base_type t = BASE_TYPE_VECTOR then SourceCast (VectorType t) castFromDest
      else [])"
  by pat_completeness auto
termination
  by (relation "measure (\<lambda>(t, c). vdepth t)") (auto simp: vdepth_def VectorType_def)

declare SourceCast.simps [simp del]

definition SourceCastBasic :: "Type \<Rightarrow> bool \<Rightarrow> string" where
  "SourceCastBasic t castFromDest =
     (if IsScalar (base_type t) then SourceCast t castFromDest else [])"

text \<open>
  \<^verbatim>\<open>GenEnumDefaultValue\<close>: the first enumerator whose value is the default, else the
  constant as it is written. The caller has checked \<^verbatim>\<open>enum_def\<close>.
\<close>

fun GenEnumDefaultValue_loop :: "string \<Rightarrow> int \<Rightarrow> string \<Rightarrow> EnumVal list \<Rightarrow> string" where
  "GenEnumDefaultValue_loop ename default_value result [] = result"
| "GenEnumDefaultValue_loop ename default_value result (enum_val # vec) =
     (if EnumVal.value enum_val = default_value
      then ename @ ''.'' @
           (if EnumVal.name enum_val = ''NONE'' then ''none'' else EnumVal.name enum_val)
      else GenEnumDefaultValue_loop ename default_value result vec)"

definition GenEnumDefaultValue :: "Externals \<Rightarrow> Value \<Rightarrow> string option" where
  "GenEnumDefaultValue X v =
     (case enum_def (type v) of
        None \<Rightarrow> None
      | Some enum_def' \<Rightarrow>
          Some (GenEnumDefaultValue_loop (EnumDef.name enum_def')
                  (StringToInt X (constant' v)) (constant' v) (vals enum_def')))"

definition GenDefaultValue :: "Externals \<Rightarrow> Value \<Rightarrow> bool \<Rightarrow> string option" where
  "GenDefaultValue X v enableLangOverrides =
     (if enableLangOverrides \<and> enum_def (type v) \<noteq> None
         \<and> base_type (type v) \<noteq> BASE_TYPE_UNION
      then GenEnumDefaultValue X v
      else if base_type (type v) = BASE_TYPE_FLOAT then Some (constant' v @ [])
      else if base_type (type v) = BASE_TYPE_BOOL
      then Some (if constant' v = ''0'' then ''false'' else ''true'')
      else if base_type (type v) = BASE_TYPE_ULONG then Some (constant' v)
      else if base_type (type v) = BASE_TYPE_UINT \<or> base_type (type v) = BASE_TYPE_LONG
      then Some (constant' v @ [])
      else Some (constant' v))"

definition GenDefaultValueBasic :: "Externals \<Rightarrow> Value \<Rightarrow> bool \<Rightarrow> string option" where
  "GenDefaultValueBasic X v enableLangOverrides =
     (if \<not> IsScalar (base_type (type v)) then
        (if enableLangOverrides \<and> base_type (type v) = BASE_TYPE_STRING
         then Some ''StringOffset(0)''
         else if enableLangOverrides \<and> base_type (type v) = BASE_TYPE_STRUCT
         then map_option (\<lambda>sd. ''Offset<'' @ StructDef.name sd @ ''>(0)'') (struct_def (type v))
         else if enableLangOverrides \<and> base_type (type v) = BASE_TYPE_VECTOR
         then Some ''VectorOffset(0)''
         else Some ''0'')
      else GenDefaultValue X v enableLangOverrides)"

section \<open>Enum emitter\<close>

text \<open>
  Every generator function appends to \<^verbatim>\<open>*code_ptr\<close> and reads nothing back from it,
  so the model of a function is the text it appends; \<open>None\<close> is undefined behaviour of
  the source (a null dereference, \<^verbatim>\<open>front()\<close> of an empty vector, signed overflow, a
  failed \<^verbatim>\<open>assert\<close>).
\<close>

definition fits_int64 :: "int \<Rightarrow> bool" where
  "fits_int64 v = (- (2 ^ 63) \<le> v \<and> v < 2 ^ 63)"

definition kMaxSparseness :: int where
  "kMaxSparseness = 5"

text \<open>The loop over the enumerators that emits the cases.\<close>

fun GenEnum_cases :: "Externals \<Rightarrow> EnumVal list \<Rightarrow> string" where
  "GenEnum_cases X [] = []"
| \<open>GenEnum_cases X (ev # vec) =
     GenComment X (EnumVal.doc_comment ev) ''  '' @
     ''    case '' @
     (if EnumVal.name ev = ''NONE'' then ''none'' else MakeCamel X (EnumVal.name ev) False) @
     '' = '' @ NumToString X (EnumVal.value ev) @ ''\<newline>'' @
     GenEnum_cases X vec\<close>

text \<open>
  \<^verbatim>\<open>while (val++ != (*it)->value) code += "\"\", ";\<close> gives the placeholders and the
  new \<open>val\<close>. Above its target \<open>val\<close> can only reach it by overflowing.
\<close>

function GenEnum_gaps :: "int \<Rightarrow> int \<Rightarrow> (string \<times> int) option" where
  \<open>GenEnum_gaps val target =
     (if \<not> fits_int64 (val + 1) \<or> target < val then None
      else if val = target then Some ([], val + 1)
      else map_option (\<lambda>(code, val'). (''"", '' @ code, val'))
             (GenEnum_gaps (val + 1) target))\<close>
  by pat_completeness auto
termination
  by (relation "measure (\<lambda>(val, target). nat (target - val))") auto

declare GenEnum_gaps.simps [simp del]

fun GenEnum_names :: "Externals \<Rightarrow> int \<Rightarrow> EnumVal list \<Rightarrow> string option" where
  "GenEnum_names X val [] = Some []"
| \<open>GenEnum_names X val (it # vec) =
     (case GenEnum_gaps val (EnumVal.value it) of
        None \<Rightarrow> None
      | Some (gaps, val') \<Rightarrow>
          map_option
            (\<lambda>code. gaps @ ''"'' @
               (if EnumVal.name it = ''NONE'' then ''none''
                else MakeCamel X (EnumVal.name it) False) @ ''", '' @ code)
            (GenEnum_names X val' vec))\<close>

definition GenEnum :: "Externals \<Rightarrow> EnumDef \<Rightarrow> string option" where
  \<open>GenEnum X enum_def' =
     (if EnumDef.generated enum_def' then Some []
      else if vals enum_def' = [] then None
      else
        let code = GenComment X (EnumDef.doc_comment enum_def') [] @
                   ''public enum '' @ EnumDef.name enum_def' @ '' : '' @
                   swift_typename X (underlying_type enum_def') @ '' {\<newline>'' @
                   GenEnum_cases X (vals enum_def');
            front = hd (vals enum_def');
            back = last (vals enum_def');
            range = EnumVal.value back - EnumVal.value front + 1
        in if \<not> fits_int64 (EnumVal.value back - EnumVal.value front) \<or>
              \<not> fits_int64 range then None
           else if range sdiv int (length (vals enum_def')) < kMaxSparseness then
             map_option
               (\<lambda>names. code @
                  ''\<newline>  public static let names : [String] = [ '' @ names @
                  '']\<newline>\<newline>'' @
                  ''  public static func '' @ MakeCamel X ''name'' False @
                  ''(_ e: Int) -> String { return names[e'' @
                  (if EnumVal.value front \<noteq> 0 then '' - '' @ EnumVal.name front else []) @
                  '']; }\<newline>'' @
                  ''}\<newline>\<newline>'')
               (GenEnum_names X (EnumVal.value front) (vals enum_def'))
           else Some (code @ ''}\<newline>\<newline>''))\<close>


section \<open>Layout emitter and getters\<close>

text \<open>\<^verbatim>\<open>GenGetter\<close>: the name of the function that reads a value of the type.\<close>

function GenGetter :: "Externals \<Rightarrow> Type \<Rightarrow> string option" where
  "GenGetter X t =
     (if base_type t = BASE_TYPE_STRING then Some ''__p.__string''
      else if base_type t = BASE_TYPE_STRUCT then Some ''__p.__struct''
      else if base_type t = BASE_TYPE_UNION then Some ''__p.__union''
      else if base_type t = BASE_TYPE_VECTOR then GenGetter X (VectorType t)
      else do {
        tn \<leftarrow> GenTypeBasic X t False;
        let getter = ''__p.bb.'' @ FunctionStart (CHR ''G'') @ ''et'';
        Some (if base_type t = BASE_TYPE_BOOL then ''0!='' @ getter
              else if tn \<noteq> ''UInt8'' then getter @ MakeCamel X tn True
              else getter)
      })"
  by pat_completeness auto
termination
  by (relation "measure (\<lambda>(X, t). vdepth t)") (auto simp: vdepth_def VectorType_def)

declare GenGetter.simps [simp del]

definition GenByteBufferLength :: "string \<Rightarrow> string" where
  "GenByteBufferLength bb_name = bb_name @ ''.length''"

text \<open>\<^verbatim>\<open>GenOffsetGetter(key_field, num)\<close>; \<open>num = None\<close> is the default \<^verbatim>\<open>nullptr\<close>.\<close>

definition GenOffsetGetter :: "Externals \<Rightarrow> FieldDef \<Rightarrow> string option \<Rightarrow> string" where
  "GenOffsetGetter X key_field num =
     ''Table.__offset('' @ NumToString X (int (offset (value' key_field))) @ '', '' @
     (case num of
        Some n \<Rightarrow> n @ ''.value, builder.dataBuffer)''
      | None \<Rightarrow> GenByteBufferLength ''bb'' @ '' - tableOffset, bb)'')"

definition GenGetterForLookupByKey ::
  "Externals \<Rightarrow> FieldDef \<Rightarrow> string \<Rightarrow> string option \<Rightarrow> string option" where
  "GenGetterForLookupByKey X key_field data_buffer num = do {
     let t = type (value' key_field);
     dest_mask \<leftarrow> DestinationMask t;
     dest_cast \<leftarrow> DestinationCast t;
     tn \<leftarrow> GenTypeBasic X t False;
     let getter = data_buffer @ ''.'' @ FunctionStart (CHR ''G'') @ ''et'';
     let getter = (if tn \<noteq> ''UInt8'' then getter @ MakeCamel X tn True else getter);
     Some (dest_cast @ getter @ ''(at: '' @ GenOffsetGetter X key_field num @ '')'' @ dest_mask)
   }"

definition GenSetter :: "Externals \<Rightarrow> Type \<Rightarrow> string option" where
  "GenSetter X t =
     (if IsScalar (base_type t) then do {
        tn \<leftarrow> GenTypeBasic X t False;
        let setter = ''__p.bb.'' @ FunctionStart (CHR ''P'') @ ''ut'';
        Some (if tn \<noteq> ''byte'' \<and> base_type t \<noteq> BASE_TYPE_BOOL
              then setter @ MakeCamel X tn True else setter)
      } else Some [])"

definition GenMethod :: "Externals \<Rightarrow> Type \<Rightarrow> string option" where
  "GenMethod X t =
     (if IsScalar (base_type t)
      then map_option (\<lambda>tn. MakeCamel X tn True) (GenTypeBasic X t False)
      else map_option (\<lambda>b. if b then ''Struct'' else ''Offset'') (IsStruct t))"

text \<open>
  \<^verbatim>\<open>GenStructArgs\<close> and \<^verbatim>\<open>GenStructBody\<close> recurse into the definition of a field
  that is a struct. \<open>those\<close> is \<open>None\<close> as soon as one iteration is.
\<close>

function GenStructArgs :: "Externals \<Rightarrow> StructDef \<Rightarrow> string \<Rightarrow> string option" where
  "GenStructArgs X struct_def' nameprefix =
     map_option concat (those (map
       (\<lambda>field.
          case IsStruct (type (value' field)) of
            None \<Rightarrow> None
          | Some True \<Rightarrow>
              (case struct_def (type (value' field)) of
                 None \<Rightarrow> None
               | Some sd \<Rightarrow> GenStructArgs X sd (nameprefix @ (FieldDef.name field @ ''_'')))
          | Some False \<Rightarrow>
              map_option
                (\<lambda>tn. '', '' @ nameprefix @ MakeCamel X (FieldDef.name field) False @ '': '' @ tn)
                (GenTypeBasic X (DestinationType (type (value' field))) True))
       (StructDef.fields struct_def')))"
  by pat_completeness auto
termination
proof (relation "measure (\<lambda>(X, sd, p). size sd)")
  show "wf (measure (\<lambda>(X, sd, p). size sd))" by simp
next
  fix X :: Externals and struct_def' :: StructDef and nameprefix :: string
    and field :: FieldDef and b :: bool and sd :: StructDef
  assume mem: "field \<in> set (StructDef.fields struct_def')"
    and sd: "struct_def (type (value' field)) = Some sd"
  have "size sd < size (type (value' field))"
    using sd by (cases "type (value' field)") simp
  also have "\<dots> < size (value' field)"
    by (cases "value' field") simp
  also have "\<dots> < size field"
    by (cases field) simp
  also have "\<dots> \<le> size_list size (StructDef.fields struct_def')"
    using mem by (simp add: size_list_estimation')
  also have "\<dots> < size struct_def'"
    by (cases struct_def') simp
  finally show "((X, sd, nameprefix @ (FieldDef.name field @ ''_'')), (X, struct_def', nameprefix))
        \<in> measure (\<lambda>(X, sd, p). size sd)"
    by simp
qed

declare GenStructArgs.simps [simp del]

text \<open>
  \<^verbatim>\<open>GenStructBody\<close>: the \<^verbatim>\<open>prep\<close> statement, then the fields from the last to the
  first, each with its padding first.
\<close>

function GenStructBody :: "Externals \<Rightarrow> StructDef \<Rightarrow> string \<Rightarrow> string option" where
  \<open>GenStructBody X struct_def' nameprefix =
     map_option
       (\<lambda>body.
          ''    builder.'' @ FunctionStart (CHR ''P'') @ ''rep(size:'' @
          NumToString X (int (minalign struct_def')) @ '', additionalBytes: '' @
          NumToString X (int (bytesize struct_def')) @ '');\<newline>'' @ concat body)
       (those (map
          (\<lambda>field.
             map_option
               (\<lambda>code.
                  (if padding field \<noteq> 0
                   then ''    builder.'' @ FunctionStart (CHR ''P'') @ ''ad(size: '' @
                        NumToString X (int (padding field)) @ '');\<newline>''
                   else []) @ code)
               (case IsStruct (type (value' field)) of
                  None \<Rightarrow> None
                | Some True \<Rightarrow>
                    (case struct_def (type (value' field)) of
                       None \<Rightarrow> None
                     | Some sd \<Rightarrow>
                         GenStructBody X sd (nameprefix @ (FieldDef.name field @ ''_'')))
                | Some False \<Rightarrow>
                    map_option
                      (\<lambda>method.
                         ''    builder.'' @ FunctionStart (CHR ''P'') @ ''ut'' @ method @ ''('' @
                         SourceCast (type (value' field)) True @
                         nameprefix @ MakeCamel X (FieldDef.name field) False @
                         (if IsEnum (type (value' field)) then ''.rawValue'' else []) @
                         '');\<newline>'')
                      (GenMethod X (type (value' field)))))
          (rev (StructDef.fields struct_def'))))\<close>
  by pat_completeness auto
termination
proof (relation "measure (\<lambda>(X, sd, p). size sd)")
  show "wf (measure (\<lambda>(X, sd, p). size sd))" by simp
next
  fix X :: Externals and struct_def' :: StructDef and nameprefix :: string
    and field :: FieldDef and b :: bool and sd :: StructDef
  assume mem: "field \<in> set (rev (StructDef.fields struct_def'))"
    and sd: "struct_def (type (value' field)) = Some sd"
  have "size sd < size (type (value' field))"
    using sd by (cases "type (value' field)") simp
  also have "\<dots> < size (value' field)"
    by (cases "value' field") simp
  also have "\<dots> < size field"
    by (cases field) simp
  also have "\<dots> \<le> size_list size (StructDef.fields struct_def')"
    using mem by (simp add: size_list_estimation')
  also have "\<dots> < size struct_def'"
    by (cases struct_def') simp
  finally show "((X, sd, nameprefix @ (FieldDef.name field @ ''_'')), (X, struct_def', nameprefix))
        \<in> measure (\<lambda>(X, sd, p). size sd)"
    by simp
qed

declare GenStructBody.simps [simp del]

section \<open>Vector key-lookup emitter: the key getters\<close>

definition GenLookupKeyGetter :: "Externals \<Rightarrow> FieldDef \<Rightarrow> string option" where
  \<open>GenLookupKeyGetter X key_field =
     map_option
       (\<lambda>cmp.
          ''      let tableOffset = Table.__indirect(vectorLocation + 4 * (start + middle)'' @
          '', bb);\<newline>      '' @ cmp)
       (if base_type (type (value' key_field)) = BASE_TYPE_STRING
        then Some (''let comp = Table.'' @ FunctionStart (CHR ''C'') @ ''ompareStrings('' @
                   GenOffsetGetter X key_field None @ '', byteKey, bb);\<newline>'')
        else do {
          get_val \<leftarrow> GenGetterForLookupByKey X key_field ''bb'' None;
          tnd \<leftarrow> GenTypeNameDest X (type (value' key_field));
          Some (tnd @ '' val = '' @ get_val @ '';\<newline>'' @
                ''      let comp = val > key ? 1 : val < key ? -1 : 0;\<newline>'')
        })\<close>

definition GenKeyGetter :: "Externals \<Rightarrow> FieldDef \<Rightarrow> string option" where
  \<open>GenKeyGetter X key_field =
     (let data_buffer = ''builder.dataBuffer'' in
      if base_type (type (value' key_field)) = BASE_TYPE_STRING
      then Some (''Table.'' @ FunctionStart (CHR ''C'') @ ''ompareStrings('' @
                 GenOffsetGetter X key_field (Some ''o1'') @ '', '' @
                 GenOffsetGetter X key_field (Some ''o2'') @ '', '' @ data_buffer @ '')'')
      else do {
        field_getter1 \<leftarrow> GenGetterForLookupByKey X key_field data_buffer (Some ''o1'');
        tnd \<leftarrow> GenTypeNameDest X (type (value' key_field));
        field_getter2 \<leftarrow> GenGetterForLookupByKey X key_field data_buffer (Some ''o2'');
        Some (''\<newline>    '' @ tnd @ '' val_1 = '' @ field_getter1 @ '';\<newline>    '' @ tnd @
              '' val_2 = '' @ field_getter2 @ '';\<newline>'' @
              ''    return val_1 > val_2 ? 1 : val_1 < val_2 ? -1 : 0;\<newline> '')
      })\<close>

section \<open>Table emitter\<close>

text \<open>
  \<^verbatim>\<open>GenStruct\<close> is modelled block by block, in the order of the source; each block is
  the text it appends. The first block is the declaration of the accessor type, with the
  root accessors of a table.
\<close>

definition GenStruct_declaration :: "Externals \<Rightarrow> Parser \<Rightarrow> StructDef \<Rightarrow> string" where
  \<open>GenStruct_declaration X parser' struct_def' =
     (let name = StructDef.name struct_def';
          method_name = FunctionStart (CHR ''G'') @ ''etRootAs'' @ name;
          method_signature = ''  public static func '' @ method_name
      in
        GenComment X (StructDef.doc_comment struct_def') [] @
        ''public '' @ ''struct '' @ name @ '' : FlatbufferObject'' @ '' {\<newline>'' @
        ''  private var'' @ '' __p = '' @
        (if StructDef.fixed struct_def' then ''Struct()'' else ''Table()'') @
        '' \<newline>\<newline>'' @ ''  public init() {  }\<newline>\<newline>'' @
        ''  public var byteBuffer : ByteBuffer { get { return __p.bb; } }\<newline>'' @
        (if \<not> StructDef.fixed struct_def' then
           method_signature @ ''(_ _bb: ByteBuffer) -> '' @ name @
           '' { var obj = '' @ name @ ''(); return '' @ method_name @ ''(_bb, &obj); }\<newline>'' @
           method_signature @ ''(_ _bb: ByteBuffer, _ obj: inout '' @ name @ '') -> '' @ name @
           '' { '' @ ''return (obj.__assign(Int(_bb.'' @ FunctionStart (CHR ''G'') @
           ''etInt32(at: _bb.'' @ ''position'' @ '')) + _bb.'' @ ''position'' @
           '', _bb)); }\<newline>'' @
           (if root_struct_def' parser' = Some struct_def' \<and> file_identifier' parser' \<noteq> []
            then ''  public static '' @ ''func '' @ name @
                 ''BufferHasIdentifier(_ _bb: ByteBuffer) -> Bool { return '' @
                 ''Table.__has_identifier(_bb, "'' @ file_identifier' parser' @ ''"); }\<newline>''
            else [])
         else []) @
        ''  public mutating func __init(_ _i : Int, _ _bb: ByteBuffer) '' @
        ''{ __p.bb_pos = _i; '' @ ''__p.bb = _bb; }\<newline>'' @
        ''  public mutating func __assign(_ _i: Int, _ _bb: ByteBuffer) -> '' @ name @
        '' { __init(_i, _bb); return self; }\<newline>\<newline>'')\<close>

text \<open>The prefix of the accessors that test the field's slot first.\<close>

definition offset_prefix :: "Externals \<Rightarrow> FieldDef \<Rightarrow> string" where
  "offset_prefix X field =
     '' { let o = __p.__offset('' @ NumToString X (int (offset (value' field))) @
     ''); if o != 0 { ''"

text \<open>
  The read accessor of a field that is not deprecated: the comment, \<open>method_start\<close>,
  the body for the kind of the field, \<open>member_suffix\<close> and the closing brace.
  The \<^verbatim>\<open>default\<close> of the source's \<^verbatim>\<open>switch\<close> is \<^verbatim>\<open>assert(0)\<close>.
\<close>

definition GenStruct_accessor :: "Externals \<Rightarrow> StructDef \<Rightarrow> FieldDef \<Rightarrow> string option" where
  \<open>GenStruct_accessor X struct_def' field = do {
     let t = type (value' field);
     type_name \<leftarrow> GenTypeGet X t;
     type_name_dest \<leftarrow> GenTypeNameDest X t;
     let indirected = (\<not> StructDef.fixed struct_def' \<and>
           (base_type t = BASE_TYPE_STRUCT \<or> base_type t = BASE_TYPE_UNION \<or>
            (base_type t = BASE_TYPE_VECTOR \<and> element t = BASE_TYPE_STRUCT)));
     let optional = (if indirected then ''?'' else []);
     let conditional_cast = (if indirected then type_name_dest @ optional else []);
     dest_mask \<leftarrow> DestinationMask t;
     dest_cast \<leftarrow> DestinationCast t;
     let method_start =
       (if base_type t = BASE_TYPE_UNION
        then ''    public func '' @ MakeCamel X (FieldDef.name field) False @
             ''<TTable : FlatbufferObject>() -> TTable? ''
        else if base_type t = BASE_TYPE_VECTOR
        then ''    public func '' @ MakeCamel X (FieldDef.name field) False @ []
        else ''  public var '' @ MakeCamel X (FieldDef.name field) False @ '' : '' @
             type_name_dest @ optional @ '' '');
     let obj = type_name @ ''()'';
     g \<leftarrow> GenGetter X t;
     let getter = dest_cast @ g;
     let default_cast =
       (if (IsScalar (base_type t) \<or>
            (base_type t = BASE_TYPE_VECTOR \<and> IsScalar (element t))) \<and>
           (enum_def t = None \<or> base_type t = BASE_TYPE_VECTOR)
        then type_name_dest @ ''('' else ''('');
     body \<leftarrow>
       (if IsScalar (base_type t) then
          (if StructDef.fixed struct_def'
           then Some ('' { get'' @ '' { return '' @ getter @ ''(at: __p.bb_pos + '' @
                      NumToString X (int (offset (value' field))) @ '')'' @ dest_mask @
                      ''; '' @ ''} '')
           else map_option
                  (\<lambda>dv. '' { get'' @ offset_prefix X field @ ''return '' @ getter @
                     ''(at: o + __p.bb_pos)'' @ dest_mask @
                     '' } else { return '' @ default_cast @ dv @ '') }'' @ ''; '' @ ''} '')
                  (GenDefaultValue X (value' field) True))
        else if base_type t = BASE_TYPE_STRUCT then
          (if StructDef.fixed struct_def'
           then Some ('' { get'' @ '' { var obj = '' @ obj @ ''; return obj.__assign(__p.'' @
                      ''bb_pos + '' @ NumToString X (int (offset (value' field))) @ '', '' @
                      ''__p.bb)'' @ ''; '' @ ''} '')
           else map_option
                  (\<lambda>sd. '' { get'' @ offset_prefix X field @
                     ''var obj = '' @ obj @ ''; return obj.__assign('' @
                     (if StructDef.fixed sd then ''o + __p.bb_pos''
                      else ''__p.__indirect(o + __p.bb_pos)'') @
                     '', __p.bb) } else { return nil }'' @ ''; '' @ ''} '')
                  (struct_def t))
        else if base_type t = BASE_TYPE_STRING then
          Some ('' { get'' @ offset_prefix X field @ ''return '' @ getter @ ''(at: o + __p.'' @
                ''bb_pos) } else {'' @
                (if required field then '' fatalError() }'' else '' return nil }'') @
                ''; '' @ ''} '')
        else if base_type t = BASE_TYPE_VECTOR then
          (let vectortype = VectorType t;
               index = ''__p.__vector(o) + j * '' @
                       NumToString X (int (InlineSize X vectortype))
           in map_option
                (\<lambda>element_at.
                   ''(at j: Int) -> '' @ conditional_cast @ offset_prefix X field @
                   element_at @ '')'' @ dest_mask @ '' } else { return '' @
                   (if element t = BASE_TYPE_BOOL then ''false''
                    else if IsScalar (element t) then default_cast @ ''0'' else ''nil'') @
                   '' } '' @ ''; '')
                (if base_type vectortype = BASE_TYPE_STRUCT
                 then map_option
                        (\<lambda>sd. (''var obj = '' @ obj @ ''; '') @ ''return obj.__assign('' @
                           (if StructDef.fixed sd then index
                            else ''__p.__indirect('' @ index @ '')'') @ '', __p.bb'')
                        (struct_def vectortype)
                 else Some (''return '' @ getter @ ''(at: '' @ index)))
        else if base_type t = BASE_TYPE_UNION then
          Some (offset_prefix X field @ ''return '' @ getter @
                ''(o) } else { return nil }'' @ ''; '')
        else None);
     Some (GenComment X (FieldDef.doc_comment field) ''  '' @ method_start @ body @
           ''}\<newline>'')
   }\<close>

text \<open>The length accessor of a vector field.\<close>

definition GenStruct_vector_length :: "Externals \<Rightarrow> FieldDef \<Rightarrow> string" where
  \<open>GenStruct_vector_length X field =
     (if base_type (type (value' field)) = BASE_TYPE_VECTOR
      then ''  public var '' @ MakeCamel X (FieldDef.name field) False @
           ''Length : Int'' @ '' { get'' @ offset_prefix X field @
           ''return __p.__vector_len(o) } else { return 0 }; '' @ ''} '' @ ''}\<newline>''
      else [])\<close>

text \<open>The byte-buffer accessor of a string or a vector of scalars.\<close>

definition GenStruct_bytes :: "Externals \<Rightarrow> FieldDef \<Rightarrow> string" where
  \<open>GenStruct_bytes X field =
     (let t = type (value' field) in
      if (base_type t = BASE_TYPE_VECTOR \<and> IsScalar (base_type (VectorType t))) \<or>
         base_type t = BASE_TYPE_STRING
      then ''  public func get'' @ MakeCamel X (FieldDef.name field) True @
           ''Bytes() -> UnsafeMutableRawBufferPointer? { return '' @
           ''__p.__vector_as_arraysegment('' @
           NumToString X (int (offset (value' field))) @ ''); }\<newline>''
      else [])\<close>

text \<open>The object accessor of a field with the attribute \<^verbatim>\<open>nested_flatbuffer\<close>.\<close>

definition GenStruct_nested :: "Externals \<Rightarrow> FieldDef \<Rightarrow> string option" where
  \<open>GenStruct_nested X field =
     (case nested_flatbuffer field of
        None \<Rightarrow> Some []
      | Some nested \<Rightarrow>
          map_option
            (\<lambda>nested_type_name.
               let nestedMethodName =
                     MakeCamel X (FieldDef.name field) False @ ''As'' @ nested_type_name;
                   getNestedMethodName = ''Get'' @ nestedMethodName;
                   obj = ''('' @ nested_type_name @ ''())''
               in ''  public '' @ nested_type_name @ ''? '' @ getNestedMethodName @ ''('' @
                  '') { let o = __p.__offset('' @
                  NumToString X (int (offset (value' field))) @ ''); '' @
                  ''    if o != 0 {\<newline>    var obj = '' @ obj @ ''; return obj.__assign('' @
                  ''__p.'' @ ''__indirect(__p.__vector(o)), '' @
                  ''__p.bb) } else { return nil } }\<newline>'')
            (nested_type_name X nested))\<close>

text \<open>
  The mutator. The source builds \<open>mutator_params\<close>, with the name of the underlying
  type, before it tests whether the field is a scalar or a vector of scalars.
\<close>

definition GenStruct_mutator ::
  "Externals \<Rightarrow> Parser \<Rightarrow> StructDef \<Rightarrow> FieldDef \<Rightarrow> string option" where
  \<open>GenStruct_mutator X parser' struct_def' field =
     (if mutable_buffer (opts parser') then do {
        let t = type (value' field);
        let src_cast = SourceCast t True;
        let underlying_type = (if base_type t = BASE_TYPE_VECTOR then VectorType t else t);
        let setter_parameter =
          (if base_type underlying_type = BASE_TYPE_BOOL
           then ''(byte)('' @ FieldDef.name field @ '' ? 1 : 0)''
           else FieldDef.name field);
        let mutator_prefix = MakeCamel X ''mutate'' False;
        tnd \<leftarrow> GenTypeNameDest X underlying_type;
        let mutator_params =
          (if base_type t = BASE_TYPE_VECTOR then ''(int j, '' else ''('') @
          tnd @ '' '' @ FieldDef.name field @ '') { '';
        let setter_index =
          (if base_type t = BASE_TYPE_VECTOR
           then ''__p.__vector(o) + j * '' @
                NumToString X (int (InlineSize X underlying_type))
           else if StructDef.fixed struct_def'
           then ''__p.bb_pos + '' @ NumToString X (int (offset (value' field)))
           else ''o + __p.bb_pos'');
        if IsScalar (base_type t) \<or>
           (base_type t = BASE_TYPE_VECTOR \<and> IsScalar (base_type (VectorType t)))
        then map_option
               (\<lambda>setter.
                  ''  public '' @
                  (if StructDef.fixed struct_def' then ''void '' else ''Bool'') @
                  mutator_prefix @ MakeCamel X (FieldDef.name field) True @ mutator_params @
                  (if StructDef.fixed struct_def'
                   then setter @ ''('' @ setter_index @ '', '' @
                        src_cast @ setter_parameter @ ''); }\<newline>''
                   else ''let o = __p.__offset('' @
                        NumToString X (int (offset (value' field))) @ '');'' @
                        '' if (o != 0) { '' @ setter @
                        ''('' @ setter_index @ '', '' @ src_cast @ setter_parameter @
                        ''); return true; } else { return false; } }\<newline>''))
               (GenSetter X underlying_type)
        else Some []
      } else Some [])\<close>

text \<open>One iteration of the loop over the fields: nothing for a deprecated field.\<close>

definition GenStruct_field ::
  "Externals \<Rightarrow> Parser \<Rightarrow> StructDef \<Rightarrow> FieldDef \<Rightarrow> string option" where
  "GenStruct_field X parser' struct_def' field =
     (if deprecated field then Some []
      else do {
        accessor \<leftarrow> GenStruct_accessor X struct_def' field;
        nested \<leftarrow> GenStruct_nested X field;
        mutator \<leftarrow> GenStruct_mutator X parser' struct_def' field;
        Some (accessor @ GenStruct_vector_length X field @ GenStruct_bytes X field @
              nested @ mutator)
      })"

text \<open>The constructor function of a struct.\<close>

definition GenStruct_create_struct :: "Externals \<Rightarrow> StructDef \<Rightarrow> string option" where
  \<open>GenStruct_create_struct X struct_def' = do {
     args \<leftarrow> GenStructArgs X struct_def' [];
     body \<leftarrow> GenStructBody X struct_def' [];
     Some (''  public static func '' @ FunctionStart (CHR ''C'') @ ''reate'' @
           StructDef.name struct_def' @ ''(_ builder: FlatBufferBuilder'' @ args @
           '') -> '' @ GenOffsetType struct_def' @ '' {\<newline>'' @ body @
           ''    return '' @ GenOffsetConstruct struct_def' (''builder.'' @ ''offset'') @
           '';\<newline>  }\<newline>'')
   }\<close>

text \<open>
  The builder of a table. First the loop that decides whether the all-in-one constructor
  is emitted: \<open>has_no_struct_fields\<close> and \<open>num_fields\<close>.
\<close>

fun GenStruct_count :: "FieldDef list \<Rightarrow> bool \<times> nat \<Rightarrow> (bool \<times> nat) option" where
  "GenStruct_count [] (has_no_struct_fields, num_fields) =
     Some (has_no_struct_fields, num_fields)"
| "GenStruct_count (field # vec) (has_no_struct_fields, num_fields) =
     (if deprecated field then GenStruct_count vec (has_no_struct_fields, num_fields)
      else case IsStruct (type (value' field)) of
             None \<Rightarrow> None
           | Some True \<Rightarrow> GenStruct_count vec (False, num_fields)
           | Some False \<Rightarrow> GenStruct_count vec (has_no_struct_fields, num_fields + 1))"

text \<open>The parameters of the constructor, one for each field that is not deprecated.\<close>

fun GenStruct_create_params :: "Externals \<Rightarrow> FieldDef list \<Rightarrow> string option" where
  "GenStruct_create_params X [] = Some []"
| \<open>GenStruct_create_params X (field # vec) =
     (if deprecated field then GenStruct_create_params X vec
      else do {
        tn \<leftarrow> GenTypeBasic X (DestinationType (type (value' field))) True;
        dv \<leftarrow> GenDefaultValueBasic X (value' field) True;
        code \<leftarrow> GenStruct_create_params X vec;
        Some ('',\<newline>      '' @ MakeCamel X (FieldDef.name field) False @
              (if \<not> IsScalar (base_type (type (value' field))) then ''Offset'' else []) @
              '': '' @ tn @ '' = '' @ dv @ code)
      })\<close>

text \<open>
  One pass of the inner loop, from \<^verbatim>\<open>rbegin()\<close> to \<^verbatim>\<open>rend()\<close>, for one \<open>size\<close>:
  the argument is the vector of fields reversed.
\<close>

fun GenStruct_create_pass :: "Externals \<Rightarrow> StructDef \<Rightarrow> nat \<Rightarrow> FieldDef list \<Rightarrow> string" where
  "GenStruct_create_pass X struct_def' size' [] = []"
| \<open>GenStruct_create_pass X struct_def' size' (field # rvec) =
     (if \<not> deprecated field \<and>
         (\<not> sortbysize struct_def' \<or> size' = SizeOf X (base_type (type (value' field))))
      then (let name = MakeCamel X (FieldDef.name field) False @
                       (if \<not> IsScalar (base_type (type (value' field)))
                        then ''Offset'' else [])
            in ''    '' @ StructDef.name struct_def' @ ''.'' @
               FunctionStart (CHR ''A'') @ ''dd'' @
               MakeCamel X (FieldDef.name field) True @ ''(builder, '' @ name @ '': '' @
               name @ '');\<newline>'')
      else []) @
     GenStruct_create_pass X struct_def' size' rvec\<close>

text \<open>\<^verbatim>\<open>for (size_t size = ...; size; size /= 2)\<close>.\<close>

function GenStruct_create_sizes :: "Externals \<Rightarrow> StructDef \<Rightarrow> nat \<Rightarrow> string" where
  "GenStruct_create_sizes X struct_def' size' =
     (if size' = 0 then []
      else GenStruct_create_pass X struct_def' size' (rev (StructDef.fields struct_def')) @
           GenStruct_create_sizes X struct_def' (size' div 2))"
  by pat_completeness auto
termination
  by (relation "measure (\<lambda>(X, sd, n). n)") auto

declare GenStruct_create_sizes.simps [simp del]

definition GenStruct_create_table :: "Externals \<Rightarrow> StructDef \<Rightarrow> string option" where
  \<open>GenStruct_create_table X struct_def' = do {
     (has_no_struct_fields, num_fields) \<leftarrow>
        GenStruct_count (StructDef.fields struct_def') (True, 0);
     if has_no_struct_fields \<and> num_fields \<noteq> 0 then do {
       params \<leftarrow> GenStruct_create_params X (StructDef.fields struct_def');
       Some (''  public static func '' @ FunctionStart (CHR ''C'') @ ''reate'' @
             StructDef.name struct_def' @ ''(_ builder: FlatBufferBuilder'' @ params @
             '') -> '' @ GenOffsetType struct_def' @ '' {\<newline>    builder.'' @
             FunctionStart (CHR ''S'') @ ''tartObject(numFields: '' @
             NumToString X (int (length (StructDef.fields struct_def'))) @ '');\<newline>'' @
             GenStruct_create_sizes X struct_def'
               (if sortbysize struct_def' then sizeof_largest_scalar_t X else 1) @
             ''    return '' @ StructDef.name struct_def' @ ''.'' @
             FunctionStart (CHR ''E'') @ ''nd'' @ StructDef.name struct_def' @
             ''(builder);\<newline>  }\<newline>\<newline>'')
     } else Some []
   }\<close>

definition GenStruct_start :: "Externals \<Rightarrow> StructDef \<Rightarrow> string" where
  \<open>GenStruct_start X struct_def' =
     ''  public static func '' @ FunctionStart (CHR ''S'') @ ''tart'' @
     StructDef.name struct_def' @ ''(_ builder: FlatBufferBuilder) { builder.'' @
     FunctionStart (CHR ''S'') @ ''tartObject(numFields: '' @
     NumToString X (int (length (StructDef.fields struct_def'))) @ ''); }\<newline>''\<close>

text \<open>
  The methods that create and start the vector of a vector field, emitted after the
  \<^verbatim>\<open>add\<close> method of the field.
\<close>

definition GenStruct_add_vector :: "Externals \<Rightarrow> FieldDef \<Rightarrow> string option" where
  \<open>GenStruct_add_vector X field =
     (let t = type (value' field) in
      if base_type t = BASE_TYPE_VECTOR then do {
        let vector_type = VectorType t;
        let alignment = InlineAlignment X vector_type;
        let elem_size = InlineSize X vector_type;
        is_struct \<leftarrow> IsStruct vector_type;
        create_vector \<leftarrow>
          (if \<not> is_struct then do {
             etn \<leftarrow> GenTypeBasic X vector_type True;
             emethod \<leftarrow> GenMethod X vector_type;
             Some (''  public static func '' @ FunctionStart (CHR ''C'') @ ''reate'' @
                   MakeCamel X (FieldDef.name field) True @
                   ''Vector(_ builder: FlatBufferBuilder, data: ['' @ etn @ '']) -> '' @
                   GenVectorOffsetType @ '' { builder.'' @ FunctionStart (CHR ''S'') @
                   ''tartVector(elemSize: '' @ NumToString X (int elem_size) @
                   '', count: data.count, alignment: '' @ NumToString X (int alignment) @
                   ''); for i in (0..<data.count).reversed() { builder.add'' @ emethod @
                   ''('' @ SourceCastBasic vector_type False @ ''data[i]'' @
                   (if base_type vector_type = BASE_TYPE_STRUCT \<or>
                       base_type vector_type = BASE_TYPE_STRING
                    then ''.value'' else []) @
                   ''); }; return '' @ ''builder.'' @ FunctionStart (CHR ''E'') @
                   ''ndVector(); }\<newline>'')
           } else Some []);
        Some (create_vector @
              ''  public static func '' @ FunctionStart (CHR ''S'') @ ''tart'' @
              MakeCamel X (FieldDef.name field) True @
              ''Vector(_ builder: FlatBufferBuilder, numElems: Int) '' @
              ''{ builder.'' @ FunctionStart (CHR ''S'') @ ''tartVector(elemSize: '' @
              NumToString X (int elem_size) @ '', count: numElems, alignment: '' @
              NumToString X (int alignment) @ ''); }\<newline>'')
      } else Some [])\<close>

text \<open>
  The \<^verbatim>\<open>add\<close> method of the field at position \<open>i\<close>
  (\<^verbatim>\<open>it - struct_def.fields.vec.begin()\<close>), with the vector methods of a vector field.
\<close>

definition GenStruct_add :: "Externals \<Rightarrow> nat \<Rightarrow> FieldDef \<Rightarrow> string option" where
  \<open>GenStruct_add X i field = do {
     let t = type (value' field);
     let argname = MakeCamel X (FieldDef.name field) False @
                   (if \<not> IsScalar (base_type t) then ''Offset'' else []);
     tn \<leftarrow> GenTypeBasic X (DestinationType t) True;
     method \<leftarrow> GenMethod X t;
     let passedArg =
       (if \<not> IsScalar (base_type t) \<and> base_type t \<noteq> BASE_TYPE_UNION
        then argname @ ''.value''
        else if enum_def t \<noteq> None
        then (if IsScalar (base_type t) then argname @ ''.rawValue''
              else ''Int('' @ argname @ '')'')
        else argname);
     dv \<leftarrow> GenDefaultValue X (value' field) False;
     vector_methods \<leftarrow> GenStruct_add_vector X field;
     Some (''  public static func '' @ FunctionStart (CHR ''A'') @ ''dd'' @
           MakeCamel X (FieldDef.name field) True @ ''(_ builder: FlatBufferBuilder, '' @
           argname @ '': '' @ tn @ [] @ '') { builder.'' @ FunctionStart (CHR ''A'') @
           ''dd'' @ method @ ''('' @ NumToString X (int i) @ '', '' @
           SourceCastBasic t True @ passedArg @ '', '' @ dv @ ''); }\<newline>'' @
           vector_methods)
   }\<close>

text \<open>
  The loop over the fields that emits the \<^verbatim>\<open>add\<close> methods; \<open>i\<close> is the position of
  the iterator. The same loop sets \<open>key_field\<close>.
\<close>

fun GenStruct_adds :: "Externals \<Rightarrow> nat \<Rightarrow> FieldDef list \<Rightarrow> string option" where
  "GenStruct_adds X i [] = Some []"
| "GenStruct_adds X i (field # vec) =
     (if deprecated field then GenStruct_adds X (i + 1) vec
      else do {
        code \<leftarrow> GenStruct_add X i field;
        rest \<leftarrow> GenStruct_adds X (i + 1) vec;
        Some (code @ rest)
      })"

fun GenStruct_key_field :: "FieldDef option \<Rightarrow> FieldDef list \<Rightarrow> FieldDef option" where
  "GenStruct_key_field key_field [] = key_field"
| "GenStruct_key_field key_field (field # vec) =
     (if deprecated field then GenStruct_key_field key_field vec
      else GenStruct_key_field (if key field then Some field else key_field) vec)"

text \<open>The \<^verbatim>\<open>end\<close> method, with the loop that emits the checks of required fields.\<close>

fun GenStruct_end_required :: "Externals \<Rightarrow> FieldDef list \<Rightarrow> string" where
  "GenStruct_end_required X [] = []"
| \<open>GenStruct_end_required X (field # vec) =
     (if \<not> deprecated field \<and> required field
      then ''    builder.`'' @ FunctionStart (CHR ''R'') @ ''equired`(o, '' @
           NumToString X (int (offset (value' field))) @
           '');  // '' @ FieldDef.name field @ ''\<newline>''
      else []) @
     GenStruct_end_required X vec\<close>

definition GenStruct_end :: "Externals \<Rightarrow> StructDef \<Rightarrow> string" where
  \<open>GenStruct_end X struct_def' =
     ''  public static func '' @ FunctionStart (CHR ''E'') @ ''nd'' @
     StructDef.name struct_def' @ ''(_ builder: FlatBufferBuilder) -> '' @
     GenOffsetType struct_def' @ '' {\<newline>    let o = builder.'' @
     FunctionStart (CHR ''E'') @ ''ndObject();\<newline>'' @
     GenStruct_end_required X (StructDef.fields struct_def') @
     ''    return '' @ GenOffsetConstruct struct_def' ''o'' @ '';\<newline>  }\<newline>''\<close>

definition GenStruct_finish :: "Parser \<Rightarrow> StructDef \<Rightarrow> string" where
  \<open>GenStruct_finish parser' struct_def' =
     (if root_struct_def' parser' = Some struct_def'
      then ''  public static func '' @ FunctionStart (CHR ''F'') @ ''inish'' @
           StructDef.name struct_def' @
           ''Buffer(_ builder: FlatBufferBuilder, _ offset: '' @
           GenOffsetType struct_def' @ '') {'' @ '' builder.'' @
           FunctionStart (CHR ''F'') @ ''inish(rootTable: offset.value'' @
           (if file_identifier' parser' \<noteq> []
            then '', fileIdentifier: "'' @ file_identifier' parser' @ ''"'' else []) @
           ''); }\<newline>''
      else [])\<close>

text \<open>The builder of a table: constructor, \<^verbatim>\<open>start\<close>, \<^verbatim>\<open>add\<close>, \<^verbatim>\<open>end\<close>, \<^verbatim>\<open>finish\<close>.\<close>

definition GenStruct_table_builder ::
  "Externals \<Rightarrow> Parser \<Rightarrow> StructDef \<Rightarrow> string option" where
  "GenStruct_table_builder X parser' struct_def' = do {
     create \<leftarrow> GenStruct_create_table X struct_def';
     adds \<leftarrow> GenStruct_adds X 0 (StructDef.fields struct_def');
     Some (create @ GenStruct_start X struct_def' @ adds @ GenStruct_end X struct_def' @
           GenStruct_finish parser' struct_def')
   }"

section \<open>Vector key-lookup emitter\<close>

text \<open>The sort routine of a record with a key.\<close>

definition GenStruct_sorted_vector :: "Externals \<Rightarrow> StructDef \<Rightarrow> FieldDef \<Rightarrow> string option" where
  \<open>GenStruct_sorted_vector X struct_def' key_field =
     map_option
       (\<lambda>key_getter.
          ''\<newline>  public static func '' @
          ''createMySortedVectorOfTables(_ builder: FlatBufferBuilder, '' @
          ''_ offsets: inout [Offset<'' @ StructDef.name struct_def' @ ''>'' @
          '']) -> VectorOffset {\<newline>'' @
          ''    offsets.sort { (o1, o2) in\<newline> '' @ key_getter @ '' < 0; }\<newline>'' @
          ''    return builder.createVectorOfTables(offsets);\<newline>  }\<newline>'')
       (GenKeyGetter X key_field)\<close>

text \<open>
  The lookup routine. In the source the statement
  \<^verbatim>\<open>if (key_field->value.type.base_type == BASE_TYPE_STRING) {\<close> opens a block that
  closes after the last statement of the routine: everything after the signature is
  inside it.
\<close>

definition GenStruct_LookupByKey :: "Externals \<Rightarrow> StructDef \<Rightarrow> FieldDef \<Rightarrow> string option" where
  \<open>GenStruct_LookupByKey X struct_def' key_field = do {
     tnd \<leftarrow> GenTypeNameDest X (type (value' key_field));
     body \<leftarrow>
       (if base_type (type (value' key_field)) = BASE_TYPE_STRING
        then map_option
               (\<lambda>key_getter.
                  ''    let byteKey = key.utf8CString\<newline>'' @
                  ''    var vectorLocation = '' @ GenByteBufferLength ''bb'' @
                  '' - vectorOffset'' @ ''.value'' @ '';\<newline>    var span = '' @
                  ''Int(bb.'' @ FunctionStart (CHR ''G'') @
                  ''etInt32(at: vectorLocation));\<newline>'' @
                  ''    var start = 0;\<newline>'' @
                  ''    vectorLocation += 4;\<newline>'' @
                  ''    while (span != 0) {\<newline>'' @
                  ''      var middle = span / 2;\<newline>'' @
                  key_getter @
                  ''      if (comp > 0) {\<newline>'' @
                  ''        span = middle;\<newline>'' @
                  ''      } else if (comp < 0) {\<newline>'' @
                  ''        middle += 1;\<newline>'' @
                  ''        start += middle;\<newline>'' @
                  ''        span -= middle;\<newline>'' @
                  ''      } else {\<newline>'' @
                  ''        var obj = '' @ StructDef.name struct_def' @ ''();\<newline>'' @
                  ''        return obj'' @
                  ''.__assign(tableOffset, bb);\<newline>'' @
                  ''      }\<newline>    }\<newline>'' @
                  ''    return nil;\<newline>'' @
                  ''  }\<newline>'')
               (GenLookupKeyGetter X key_field)
        else Some []);
     Some (''\<newline>  public static func'' @
           '' '' @ FunctionStart (CHR ''L'') @ ''ookupByKey(vectorOffset: '' @
           GenVectorOffsetType @ '', key: '' @ tnd @
           '', _ bb: ByteBuffer) -> '' @ StructDef.name struct_def' @ ''? {\<newline>'' @ body)
   }\<close>

section \<open>The generator of a record\<close>

text \<open>
  \<^verbatim>\<open>GenStruct\<close>. \<open>key_field\<close> is set by the loop of the \<^verbatim>\<open>add\<close> methods of a table
  and stays \<^verbatim>\<open>nullptr\<close> otherwise; the key routines dereference it.
\<close>

definition GenStruct :: "Externals \<Rightarrow> Parser \<Rightarrow> StructDef \<Rightarrow> string option" where
  \<open>GenStruct X parser' struct_def' =
     (if StructDef.generated struct_def' then Some []
      else do {
        accessors \<leftarrow>
          map_option concat
            (those (map (GenStruct_field X parser' struct_def')
                      (StructDef.fields struct_def')));
        construction \<leftarrow>
          (if StructDef.fixed struct_def' then GenStruct_create_struct X struct_def'
           else GenStruct_table_builder X parser' struct_def');
        let key_field =
          (if StructDef.fixed struct_def' then None
           else GenStruct_key_field None (StructDef.fields struct_def'));
        key_methods \<leftarrow>
          (if has_key struct_def' then
             (case key_field of
                None \<Rightarrow> None
              | Some kf \<Rightarrow> do {
                  sorted \<leftarrow> GenStruct_sorted_vector X struct_def' kf;
                  lookup \<leftarrow> GenStruct_LookupByKey X struct_def' kf;
                  Some (sorted @ lookup)
                })
           else Some []);
        Some (GenStruct_declaration X parser' struct_def' @ accessors @ ''\<newline>'' @
              construction @ key_methods @ ''}'' @ ''\<newline>\<newline>'')
      })\<close>

section \<open>A sample instance of the helpers\<close>

text \<open>
  Concrete helpers for evaluating the generator on sample schemas: decimal numbers,
  \<^verbatim>\<open>MakeCamel\<close> as in \<^verbatim>\<open>util.h\<close> (an underscore is dropped and the next letter raised),
  Swift names for the scalar types, the sizes of the wire format, no comments.
\<close>

function digits :: "nat \<Rightarrow> string" where
  "digits n =
     (if n < 10 then [char_of (48 + n)]
      else digits (n div 10) @ [char_of (48 + n mod 10)])"
  by pat_completeness auto
termination
  by (relation "measure id") auto

declare digits.simps [simp del]

definition NumToString0 :: "int \<Rightarrow> string" where
  "NumToString0 i = (if i < 0 then CHR ''-'' # digits (nat (- i)) else digits (nat i))"

definition toupper :: "char \<Rightarrow> char" where
  "toupper c =
     (if of_char (CHR ''a'') \<le> (of_char c :: nat) \<and> (of_char c :: nat) \<le> of_char (CHR ''z'')
      then char_of (of_char c - (32::nat)) else c)"

fun MakeCamel0_from :: "string \<Rightarrow> string" where
  "MakeCamel0_from [] = []"
| "MakeCamel0_from [c] = [c]"
| "MakeCamel0_from (c # d # s) =
     (if c = CHR ''_'' then toupper d # MakeCamel0_from s
      else c # MakeCamel0_from (d # s))"

definition MakeCamel0 :: "string \<Rightarrow> bool \<Rightarrow> string" where
  "MakeCamel0 s first =
     (case s of [] \<Rightarrow> []
      | c # r \<Rightarrow> if first then toupper c # MakeCamel0_from r else MakeCamel0_from s)"

fun swift_typename0 :: "BaseType \<Rightarrow> string" where
  "swift_typename0 BASE_TYPE_NONE = ''UInt8''"
| "swift_typename0 BASE_TYPE_UTYPE = ''UInt8''"
| "swift_typename0 BASE_TYPE_BOOL = ''Bool''"
| "swift_typename0 BASE_TYPE_CHAR = ''Int8''"
| "swift_typename0 BASE_TYPE_UCHAR = ''UInt8''"
| "swift_typename0 BASE_TYPE_SHORT = ''Int16''"
| "swift_typename0 BASE_TYPE_USHORT = ''UInt16''"
| "swift_typename0 BASE_TYPE_INT = ''Int32''"
| "swift_typename0 BASE_TYPE_UINT = ''UInt32''"
| "swift_typename0 BASE_TYPE_LONG = ''Int64''"
| "swift_typename0 BASE_TYPE_ULONG = ''UInt64''"
| "swift_typename0 BASE_TYPE_FLOAT = ''Float''"
| "swift_typename0 BASE_TYPE_DOUBLE = ''Double''"
| "swift_typename0 BASE_TYPE_STRING = ''StringOffset''"
| "swift_typename0 BASE_TYPE_VECTOR = ''VectorOffset''"
| "swift_typename0 BASE_TYPE_STRUCT = ''Int''"
| "swift_typename0 BASE_TYPE_UNION = ''Int''"

fun SizeOf0 :: "BaseType \<Rightarrow> nat" where
  "SizeOf0 BASE_TYPE_NONE = 1"
| "SizeOf0 BASE_TYPE_UTYPE = 1"
| "SizeOf0 BASE_TYPE_BOOL = 1"
| "SizeOf0 BASE_TYPE_CHAR = 1"
| "SizeOf0 BASE_TYPE_UCHAR = 1"
| "SizeOf0 BASE_TYPE_SHORT = 2"
| "SizeOf0 BASE_TYPE_USHORT = 2"
| "SizeOf0 BASE_TYPE_INT = 4"
| "SizeOf0 BASE_TYPE_UINT = 4"
| "SizeOf0 BASE_TYPE_LONG = 8"
| "SizeOf0 BASE_TYPE_ULONG = 8"
| "SizeOf0 BASE_TYPE_FLOAT = 4"
| "SizeOf0 BASE_TYPE_DOUBLE = 8"
| "SizeOf0 BASE_TYPE_STRING = 4"
| "SizeOf0 BASE_TYPE_VECTOR = 4"
| "SizeOf0 BASE_TYPE_STRUCT = 4"
| "SizeOf0 BASE_TYPE_UNION = 4"

definition InlineSize0 :: "Type \<Rightarrow> nat" where
  "InlineSize0 t =
     (case struct_def t of
        Some sd \<Rightarrow> if base_type t = BASE_TYPE_STRUCT \<and> StructDef.fixed sd
                   then bytesize sd else SizeOf0 (base_type t)
      | None \<Rightarrow> SizeOf0 (base_type t))"

definition InlineAlignment0 :: "Type \<Rightarrow> nat" where
  "InlineAlignment0 t =
     (case struct_def t of
        Some sd \<Rightarrow> if base_type t = BASE_TYPE_STRUCT \<and> StructDef.fixed sd
                   then minalign sd else SizeOf0 (base_type t)
      | None \<Rightarrow> SizeOf0 (base_type t))"

definition X0 :: Externals where
  "X0 = \<lparr> MakeCamel = MakeCamel0, NumToString = NumToString0,
          StringToInt = (\<lambda>s. 0), GenComment = (\<lambda>dc prefix. []),
          swift_typename = swift_typename0, SizeOf = SizeOf0,
          InlineSize = InlineSize0, InlineAlignment = InlineAlignment0,
          sizeof_largest_scalar_t = 8, nested_type_name = (\<lambda>s. None) \<rparr>"

text \<open>Sample enums: dense from zero, two far values, density exactly five, a gap above a nonzero minimum.\<close>

definition enum_val :: "string \<Rightarrow> int \<Rightarrow> EnumVal" where
  "enum_val n v = \<lparr> EnumVal.name = n, value = v, doc_comment = [] \<rparr>"

definition enum_of :: "string \<Rightarrow> EnumVal list \<Rightarrow> EnumDef" where
  "enum_of n vs = \<lparr> EnumDef.name = n, vals = vs, underlying_type = BASE_TYPE_CHAR,
                    generated = False, doc_comment = [] \<rparr>"

definition E_dense :: EnumDef where
  "E_dense = enum_of ''D'' [enum_val ''A'' 0, enum_val ''B'' 1, enum_val ''C'' 2, enum_val ''E'' 3, enum_val ''F'' 4]"

definition E_sparse :: EnumDef where
  "E_sparse = enum_of ''S'' [enum_val ''Lo'' 0, enum_val ''Hi'' 100]"

definition E_five :: EnumDef where
  "E_five = enum_of ''V'' [enum_val ''Lo'' 0, enum_val ''Hi'' 9]"

definition E_gap :: EnumDef where
  "E_gap = enum_of ''G'' [enum_val ''Red'' 1, enum_val ''Green'' 2, enum_val ''Blue'' 4]"

text \<open>
  An enum with a nonzero minimum whose names are not in camel case:
  \<^verbatim>\<open>enum N : byte { NONE = 1, my_val = 2 }\<close>.
\<close>

definition E_none :: EnumDef where
  "E_none = enum_of ''N'' [enum_val ''NONE'' 1, enum_val ''my_val'' 2]"

text \<open>Sample records. A field is given by name, type, offset, padding and its flags.\<close>

definition scalar :: "BaseType \<Rightarrow> Type" where
  "scalar bt = Type bt BASE_TYPE_NONE None None"

definition field_of ::
  "string \<Rightarrow> Type \<Rightarrow> nat \<Rightarrow> nat \<Rightarrow> bool \<Rightarrow> bool \<Rightarrow> bool \<Rightarrow> FieldDef" where
  "field_of n t off pad dep req k = FieldDef n (Value t ''0'' off) pad dep req k [] None"

definition struct_of :: "string \<Rightarrow> FieldDef list \<Rightarrow> nat \<Rightarrow> nat \<Rightarrow> StructDef" where
  "struct_of n fs size' align = StructDef n fs True size' align False False False []"

definition table_of :: "string \<Rightarrow> FieldDef list \<Rightarrow> bool \<Rightarrow> bool \<Rightarrow> StructDef" where
  "table_of n fs by_size keyed = StructDef n fs False 0 1 by_size keyed False []"

definition P0 :: Parser where
  "P0 = \<lparr> opts = \<lparr> one_file = False, mutable_buffer = True \<rparr>,
          root_struct_def' = None, file_identifier' = [] \<rparr>"

text \<open>A struct inside a struct: \<^verbatim>\<open>struct Inner { x:int; } struct Outer { inner:Inner; y:short; }\<close>.\<close>

definition S_inner :: StructDef where
  "S_inner = struct_of ''Inner''
     [field_of ''x'' (scalar BASE_TYPE_INT) 0 0 False False False] 4 4"

definition S_outer :: StructDef where
  "S_outer = struct_of ''Outer''
     [field_of ''inner'' (Type BASE_TYPE_STRUCT BASE_TYPE_NONE (Some S_inner) None)
        0 0 False False False,
      field_of ''y'' (scalar BASE_TYPE_SHORT) 4 2 False False False] 8 4"

text \<open>A table sorted by size: \<^verbatim>\<open>table Sized { a:int; b:int; c:long; }\<close>.\<close>

definition F_a :: FieldDef where
  "F_a = field_of ''a'' (scalar BASE_TYPE_INT) 4 0 False False False"

definition F_b :: FieldDef where
  "F_b = field_of ''b'' (scalar BASE_TYPE_INT) 6 0 False False False"

definition F_c :: FieldDef where
  "F_c = field_of ''c'' (scalar BASE_TYPE_LONG) 8 0 False False False"

definition T_sized :: StructDef where
  "T_sized = table_of ''Sized'' [F_a, F_b, F_c] True False"

text \<open>
  A table with a required string, and a string that is required and deprecated:
  \<^verbatim>\<open>table Named { name:string (required); old:string (required, deprecated); note:string; }\<close>.
\<close>

definition F_name :: FieldDef where
  "F_name = field_of ''name'' (scalar BASE_TYPE_STRING) 4 0 False True False"

definition F_old :: FieldDef where
  "F_old = field_of ''old'' (scalar BASE_TYPE_STRING) 6 0 True True False"

definition F_note :: FieldDef where
  "F_note = field_of ''note'' (scalar BASE_TYPE_STRING) 8 0 False False False"

definition T_named :: StructDef where
  "T_named = table_of ''Named'' [F_name, F_old, F_note] False False"

text \<open>A table with a vector of integers: \<^verbatim>\<open>table Nums { nums:[int]; }\<close>.\<close>

definition F_nums :: FieldDef where
  "F_nums = field_of ''nums'' (Type BASE_TYPE_VECTOR BASE_TYPE_INT None None)
     4 0 False False False"

definition T_nums :: StructDef where
  "T_nums = table_of ''Nums'' [F_nums] False False"

text \<open>
  A table with a field of an enum type whose names are not in camel case:
  \<^verbatim>\<open>enum K : byte { a_b = 0, c_d = 1 }\<close> and \<^verbatim>\<open>table HasKind { kind:K; }\<close>.
\<close>

definition E_kind :: EnumDef where
  "E_kind = enum_of ''K'' [enum_val ''a_b'' 0, enum_val ''c_d'' 1]"

definition F_kind :: FieldDef where
  "F_kind = field_of ''kind'' (Type BASE_TYPE_CHAR BASE_TYPE_NONE None (Some E_kind))
     4 0 False False False"

definition T_kind :: StructDef where
  "T_kind = table_of ''HasKind'' [F_kind] False False"

text \<open>A table with an integer key: \<^verbatim>\<open>table Keyed { id:int (key); }\<close>, and one with a string key.\<close>

definition F_id :: FieldDef where
  "F_id = field_of ''id'' (scalar BASE_TYPE_INT) 4 0 False False True"

definition T_keyed :: StructDef where
  "T_keyed = table_of ''Keyed'' [F_id] False True"

definition F_tag :: FieldDef where
  "F_tag = field_of ''tag'' (scalar BASE_TYPE_STRING) 4 0 False True True"

definition T_tagged :: StructDef where
  "T_tagged = table_of ''Tagged'' [F_tag] False True"

text \<open>A table with a deprecated field before a live one: \<^verbatim>\<open>table Evolved { old:int (deprecated); cur:short; }\<close>.\<close>

definition F_cur :: FieldDef where
  "F_cur = field_of ''cur'' (scalar BASE_TYPE_SHORT) 6 0 False False False"

definition T_evolved :: StructDef where
  "T_evolved = table_of ''Evolved''
     [field_of ''old'' (scalar BASE_TYPE_INT) 4 0 True False False, F_cur] False False"

section \<open>Descriptions of the emitted text\<close>

text \<open>
  Closed forms of what the generator's loops emit, in the words of the specification;
  the properties below relate them to the generator.
\<close>

subsection \<open>Enums\<close>

text \<open>
  The Swift case name of an enumerator, the line of its case, and the declaration up
  to the last case.
\<close>

definition enum_case_name :: "Externals \<Rightarrow> EnumVal \<Rightarrow> string" where
  "enum_case_name X e =
     (if EnumVal.name e = ''NONE'' then ''none'' else MakeCamel X (EnumVal.name e) False)"

text \<open>
  The name table: the entry for an integer is the case name of the enumerator with that
  value, or the empty string; an entry is written between quotes with a comma.
\<close>

definition names_entry :: "Externals \<Rightarrow> EnumVal list \<Rightarrow> int \<Rightarrow> string" where
  "names_entry X vec v =
     (case find (\<lambda>e. EnumVal.value e = v) vec of None \<Rightarrow> [] | Some e \<Rightarrow> enum_case_name X e)"

definition names_quoted :: "string \<Rightarrow> string" where
  \<open>names_quoted s = ''"'' @ s @ ''", ''\<close>

definition enum_case_line :: "Externals \<Rightarrow> EnumVal \<Rightarrow> string" where
  \<open>enum_case_line X e =
     GenComment X (EnumVal.doc_comment e) ''  '' @ ''    case '' @ enum_case_name X e @
     '' = '' @ NumToString X (EnumVal.value e) @ ''\<newline>''\<close>

definition enum_declaration :: "Externals \<Rightarrow> EnumDef \<Rightarrow> string" where
  \<open>enum_declaration X e =
     GenComment X (EnumDef.doc_comment e) [] @
     ''public enum '' @ EnumDef.name e @ '' : '' @ swift_typename X (underlying_type e) @
     '' {\<newline>'' @ concat (map (enum_case_line X) (vals e))\<close>

text \<open>
  \<open>range = maxValue - minValue + 1\<close> and \<open>density = range / enumeratorCount\<close>.
\<close>

definition min_value :: "EnumDef \<Rightarrow> int" where
  "min_value e = Min (EnumVal.value ` set (vals e))"

definition max_value :: "EnumDef \<Rightarrow> int" where
  "max_value e = Max (EnumVal.value ` set (vals e))"

definition enum_density :: "EnumDef \<Rightarrow> int" where
  "enum_density e = (max_value e - min_value e + 1) div int (length (vals e))"

text \<open>
  The table has one entry for every integer from the minimum to the maximum, in order;
  the lookup function indexes it, after subtracting the first enumerator when the
  minimum is not zero.
\<close>

definition names_entries :: "Externals \<Rightarrow> EnumDef \<Rightarrow> string list" where
  "names_entries X e = map (names_entry X (vals e)) [min_value e..max_value e]"

definition names_table :: "Externals \<Rightarrow> EnumDef \<Rightarrow> string" where
  \<open>names_table X e =
     ''\<newline>  public static let names : [String] = [ '' @
     concat (map names_quoted (names_entries X e)) @
     '']\<newline>\<newline>''\<close>

definition names_lookup :: "Externals \<Rightarrow> EnumDef \<Rightarrow> string" where
  \<open>names_lookup X e =
     ''  public static func '' @ MakeCamel X ''name'' False @
     ''(_ e: Int) -> String { return names[e'' @
     (if min_value e \<noteq> 0 then '' - '' @ EnumVal.name (hd (vals e)) else []) @
     '']; }\<newline>''\<close>

text \<open>
  The parser hands over enumerators in strictly ascending order of value. The values,
  their successors and the range are to be representable in \<^verbatim>\<open>int64_t\<close>.
\<close>

definition enum_ascending :: "EnumDef \<Rightarrow> bool" where
  "enum_ascending e =
     (vals e \<noteq> [] \<and> sorted_wrt (<) (map EnumVal.value (vals e)) \<and>
      (\<forall>v \<in> set (vals e). fits_int64 (EnumVal.value v) \<and> fits_int64 (EnumVal.value v + 1)) \<and>
      fits_int64 (EnumVal.value (last (vals e)) - EnumVal.value (hd (vals e)) + 1))"

subsection \<open>Tables\<close>

text \<open>The check of a required field in the \<^verbatim>\<open>end\<close> method.\<close>

definition required_check :: "Externals \<Rightarrow> FieldDef \<Rightarrow> string" where
  \<open>required_check X field =
     ''    builder.`required`(o, '' @ NumToString X (int (offset (value' field))) @
     '');  // '' @ FieldDef.name field @ ''\<newline>''\<close>

text \<open>
  Mutators: the fields that get one (scalars and vectors of scalars), the name of the
  type of a scalar, the signature of the mutator after its return type, and the call
  that stores the value, up to its last argument.
\<close>

definition mutable_kind :: "Type \<Rightarrow> bool" where
  "mutable_kind t =
     (IsScalar (base_type t) \<or> (base_type t = BASE_TYPE_VECTOR \<and> IsScalar (element t)))"

definition scalar_type_name :: "Externals \<Rightarrow> Type \<Rightarrow> string" where
  "scalar_type_name X t =
     (case enum_def t of
        Some e \<Rightarrow> if IsInteger (base_type t) then EnumDef.name e
                  else swift_typename X (base_type t)
      | None \<Rightarrow> swift_typename X (base_type t))"

definition mutator_signature :: "Externals \<Rightarrow> FieldDef \<Rightarrow> string" where
  "mutator_signature X field =
     (let t = type (value' field) in
      MakeCamel X ''mutate'' False @ MakeCamel X (FieldDef.name field) True @
      (if base_type t = BASE_TYPE_VECTOR
       then ''(int j, '' @ scalar_type_name X (VectorType t)
       else ''('' @ scalar_type_name X t) @
      '' '' @ FieldDef.name field @ '') { '')"

definition mutator_store :: "Externals \<Rightarrow> StructDef \<Rightarrow> FieldDef \<Rightarrow> string" where
  "mutator_store X sd field =
     (let t = type (value' field);
          u = (if base_type t = BASE_TYPE_VECTOR then VectorType t else t);
          tn = swift_typename X (base_type u)
      in ''__p.bb.put'' @
         (if tn \<noteq> ''byte'' \<and> base_type u \<noteq> BASE_TYPE_BOOL then MakeCamel X tn True else []) @
         ''('' @
         (if base_type t = BASE_TYPE_VECTOR
          then ''__p.__vector(o) + j * '' @ NumToString X (int (InlineSize X u))
          else if StructDef.fixed sd
          then ''__p.bb_pos + '' @ NumToString X (int (offset (value' field)))
          else ''o + __p.bb_pos'') @
         '', '' @
         (if base_type u = BASE_TYPE_BOOL then ''(byte)('' @ FieldDef.name field @ '' ? 1 : 0)''
          else FieldDef.name field))"

text \<open>
  The all-in-one constructor of a table: the call that adds one field, the text before
  the calls (with the parameters) and the text after them.
\<close>

definition create_add_call :: "Externals \<Rightarrow> StructDef \<Rightarrow> FieldDef \<Rightarrow> string" where
  \<open>create_add_call X sd field =
     (let name = MakeCamel X (FieldDef.name field) False @
                 (if IsScalar (base_type (type (value' field))) then [] else ''Offset'')
      in ''    '' @ StructDef.name sd @ ''.add'' @ MakeCamel X (FieldDef.name field) True @
         ''(builder, '' @ name @ '': '' @ name @ '');\<newline>'')\<close>

definition create_end :: "StructDef \<Rightarrow> string" where
  \<open>create_end sd =
     ''    return '' @ StructDef.name sd @ ''.end'' @ StructDef.name sd @
     ''(builder);\<newline>  }\<newline>\<newline>''\<close>

definition create_begin :: "Externals \<Rightarrow> StructDef \<Rightarrow> string \<Rightarrow> string" where
  \<open>create_begin X sd params =
     ''  public static func create'' @ StructDef.name sd @
     ''(_ builder: FlatBufferBuilder'' @ params @ '') -> Offset<'' @ StructDef.name sd @
     ''> {\<newline>    builder.startObject(numFields: '' @
     NumToString X (int (length (StructDef.fields sd))) @ '');\<newline>''\<close>

subsection \<open>Structs\<close>

text \<open>
  The definition of the struct a field holds, when the field is a struct; and the
  condition that no pointer followed by the flattening is null: every field whose base
  type is a record points to a definition, in the record and in every struct nested in
  it.
\<close>

definition nested_struct :: "FieldDef \<Rightarrow> StructDef option" where
  "nested_struct field =
     (case struct_def (type (value' field)) of
        Some sub \<Rightarrow>
          if base_type (type (value' field)) = BASE_TYPE_STRUCT \<and> StructDef.fixed sub
          then Some sub else None
      | None \<Rightarrow> None)"

function struct_defs_present :: "StructDef \<Rightarrow> bool" where
  "struct_defs_present sd =
     (\<forall>field \<in> set (StructDef.fields sd).
        (base_type (type (value' field)) = BASE_TYPE_STRUCT \<longrightarrow>
           struct_def (type (value' field)) \<noteq> None) \<and>
        (case nested_struct field of
           Some sub \<Rightarrow> struct_defs_present sub
         | None \<Rightarrow> True))"
  by pat_completeness auto
termination
proof (relation "measure size")
  show "wf (measure size)" by simp
next
  fix sd :: StructDef and field :: FieldDef and sub :: StructDef
  assume mem: "field \<in> set (StructDef.fields sd)"
    and nested: "nested_struct field = Some sub"
  from nested have sub: "struct_def (type (value' field)) = Some sub"
    by (auto simp: nested_struct_def split: option.splits if_splits)
  have "size sub < size (type (value' field))"
    using sub by (cases "type (value' field)") simp
  also have "\<dots> < size (value' field)"
    by (cases "value' field") simp
  also have "\<dots> < size field"
    by (cases field) simp
  also have "\<dots> \<le> size_list size (StructDef.fields sd)"
    using mem by (simp add: size_list_estimation')
  also have "\<dots> < size sd"
    by (cases sd) simp
  finally show "(sub, sd) \<in> measure size" by simp
qed

declare struct_defs_present.simps [simp del]

text \<open>
  The statements of the flattened constructor: the reservation for a record, the padding
  after a field, the write of a field that is not a struct.
\<close>

definition prep_line :: "Externals \<Rightarrow> StructDef \<Rightarrow> string" where
  \<open>prep_line X sd =
     ''    builder.prep(size:'' @ NumToString X (int (minalign sd)) @
     '', additionalBytes: '' @ NumToString X (int (bytesize sd)) @ '');\<newline>''\<close>

definition pad_line :: "Externals \<Rightarrow> FieldDef \<Rightarrow> string" where
  \<open>pad_line X field =
     (if padding field \<noteq> 0
      then ''    builder.pad(size: '' @ NumToString X (int (padding field)) @ '');\<newline>''
      else [])\<close>

definition put_line :: "Externals \<Rightarrow> string \<Rightarrow> FieldDef \<Rightarrow> string" where
  \<open>put_line X nameprefix field =
     (let t = type (value' field) in
      ''    builder.put'' @
      (if IsScalar (base_type t) then MakeCamel X (swift_typename X (base_type t)) True
       else ''Offset'') @
      ''('' @ nameprefix @ MakeCamel X (FieldDef.name field) False @
      (if IsEnum t then ''.rawValue'' else []) @ '');\<newline>'')\<close>

text \<open>
  The body of the constructor: the reservation of the record, then its fields from the
  last to the first, each after its padding; a field that is a struct is the body of that
  struct, under the prefix extended by the name of the field and an underscore.
\<close>

function struct_body :: "Externals \<Rightarrow> StructDef \<Rightarrow> string \<Rightarrow> string" where
  "struct_body X sd nameprefix =
     prep_line X sd @
     concat (map
       (\<lambda>field. pad_line X field @
          (case nested_struct field of
             Some sub \<Rightarrow> struct_body X sub (nameprefix @ FieldDef.name field @ ''_'')
           | None \<Rightarrow> put_line X nameprefix field))
       (rev (StructDef.fields sd)))"
  by pat_completeness auto
termination
proof (relation "measure (\<lambda>(X, sd, p). size sd)")
  show "wf (measure (\<lambda>(X, sd, p). size sd))" by simp
next
  fix X :: Externals and sd :: StructDef and nameprefix :: string
    and field :: FieldDef and sub :: StructDef
  assume mem: "field \<in> set (rev (StructDef.fields sd))"
    and nested: "nested_struct field = Some sub"
  from nested have sub: "struct_def (type (value' field)) = Some sub"
    by (auto simp: nested_struct_def split: option.splits if_splits)
  have "size sub < size (type (value' field))"
    using sub by (cases "type (value' field)") simp
  also have "\<dots> < size (value' field)"
    by (cases "value' field") simp
  also have "\<dots> < size field"
    by (cases field) simp
  also have "\<dots> \<le> size_list size (StructDef.fields sd)"
    using mem by (simp add: size_list_estimation')
  also have "\<dots> < size sd"
    by (cases sd) simp
  finally show "((X, sub, nameprefix @ FieldDef.name field @ ''_''), (X, sd, nameprefix))
        \<in> measure (\<lambda>(X, sd, p). size sd)"
    by simp
qed

declare struct_body.simps [simp del]

section \<open>Properties\<close>

subsection \<open>Enum emitter\<close>

lemma GenEnum_gaps_closed:
  "val \<le> target \<Longrightarrow> fits_int64 val \<Longrightarrow> fits_int64 (target + 1) \<Longrightarrow>
   GenEnum_gaps val target =
     Some (concat (map (\<lambda>v. names_quoted []) [val..target - 1]), target + 1)"
proof (induction val target rule: GenEnum_gaps.induct)
  case (1 val target)
  have fit: "fits_int64 (val + 1)"
    using "1.prems" by (auto simp: fits_int64_def)
  show ?case
  proof (cases "val = target")
    case True
    with fit show ?thesis by (subst GenEnum_gaps.simps) simp
  next
    case False
    with "1.prems" have lt: "val < target" by simp
    then have up: "[val..target - 1] = val # [val + 1..target - 1]"
      by (simp add: upto_rec1)
    have "GenEnum_gaps (val + 1) target =
            Some (concat (map (\<lambda>v. names_quoted []) [val + 1..target - 1]), target + 1)"
      using "1.IH" fit False lt "1.prems" by simp
    with fit False lt up show ?thesis
      by (subst GenEnum_gaps.simps) (simp add: names_quoted_def)
  qed
qed

lemma names_entry_below:
  "\<forall>e \<in> set vec. v < EnumVal.value e \<Longrightarrow> names_entry X vec v = []"
  by (induction vec) (auto simp: names_entry_def)

lemma GenEnum_names_closed:
  "vec \<noteq> [] \<Longrightarrow> sorted_wrt (<) (map EnumVal.value vec) \<Longrightarrow>
   \<forall>e \<in> set vec. fits_int64 (EnumVal.value e + 1) \<Longrightarrow>
   fits_int64 val \<Longrightarrow> val \<le> EnumVal.value (hd vec) \<Longrightarrow>
   GenEnum_names X val vec =
     Some (concat (map (\<lambda>v. names_quoted (names_entry X vec v))
                     [val..EnumVal.value (last vec)]))"
proof (induction vec arbitrary: val)
  case Nil
  then show ?case by simp
next
  case (Cons it vec)
  let ?t = "EnumVal.value it"
  have le: "val \<le> ?t" using Cons.prems by simp
  have fit: "fits_int64 (?t + 1)" using Cons.prems by simp
  have gaps: "GenEnum_gaps val ?t =
                Some (concat (map (\<lambda>v. names_quoted []) [val..?t - 1]), ?t + 1)"
    using GenEnum_gaps_closed[OF le _ fit] Cons.prems by simp
  have above: "\<forall>e \<in> set vec. ?t < EnumVal.value e"
    using Cons.prems by simp
  have below: "map (\<lambda>v. names_quoted (names_entry X (it # vec) v)) [val..?t - 1]
               = map (\<lambda>v. names_quoted []) [val..?t - 1]"
  proof (rule map_cong[OF refl])
    fix v assume "v \<in> set [val..?t - 1]"
    then have "v < ?t" by simp
    with above have "\<forall>e \<in> set (it # vec). v < EnumVal.value e" by auto
    then show "names_quoted (names_entry X (it # vec) v) = names_quoted []"
      by (simp only: names_entry_below)
  qed
  have here: "names_entry X (it # vec) ?t = enum_case_name X it"
    by (simp add: names_entry_def)
  have step: "GenEnum_names X val (it # vec) =
      map_option (\<lambda>code. concat (map (\<lambda>v. names_quoted []) [val..?t - 1]) @
                     names_quoted (enum_case_name X it) @ code)
        (GenEnum_names X (?t + 1) vec)"
    by (simp add: gaps names_quoted_def enum_case_name_def)
  show ?case
  proof (cases "vec = []")
    case True
    have split: "[val..?t] = [val..?t - 1] @ [?t]"
      using le by (simp add: upto_rec2)
    have "concat (map (\<lambda>v. names_quoted (names_entry X (it # vec) v)) [val..?t])
          = concat (map (\<lambda>v. names_quoted []) [val..?t - 1]) @ names_quoted (enum_case_name X it)"
      by (simp only: split map_append concat_append below here list.map concat.simps append_Nil2)
    with True step show ?thesis by simp
  next
    case False
    then have hdgt: "?t < EnumVal.value (hd vec)" using above by (cases vec) auto
    have lastge: "?t < EnumVal.value (last vec)" using above False by simp
    have IH: "GenEnum_names X (?t + 1) vec =
       Some (concat (map (\<lambda>v. names_quoted (names_entry X vec v))
                     [?t + 1..EnumVal.value (last vec)]))"
      using Cons.IH[of "?t + 1"] False Cons.prems fit hdgt by simp
    have rest: "map (\<lambda>v. names_quoted (names_entry X (it # vec) v)) [?t + 1..EnumVal.value (last vec)]
               = map (\<lambda>v. names_quoted (names_entry X vec v)) [?t + 1..EnumVal.value (last vec)]"
      by (rule map_cong[OF refl]) (auto simp: names_entry_def)
    have split: "[val..EnumVal.value (last vec)]
                 = [val..?t - 1] @ ?t # [?t + 1..EnumVal.value (last vec)]"
      using le lastge by (intro upto_split3) auto
    have "concat (map (\<lambda>v. names_quoted (names_entry X (it # vec) v)) [val..EnumVal.value (last vec)])
          = concat (map (\<lambda>v. names_quoted []) [val..?t - 1]) @ names_quoted (enum_case_name X it)
            @ concat (map (\<lambda>v. names_quoted (names_entry X vec v)) [?t + 1..EnumVal.value (last vec)])"
      by (simp only: split map_append concat_append below here rest list.map concat.simps)
    with False step IH show ?thesis by simp
  qed
qed


lemma GenEnum_cases_closed: "GenEnum_cases X vec = concat (map (enum_case_line X) vec)"
  by (induction vec) (simp_all add: enum_case_line_def enum_case_name_def)

lemma ascending_hd_Min:
  "vec \<noteq> [] \<Longrightarrow> sorted_wrt (<) (map EnumVal.value vec) \<Longrightarrow>
   EnumVal.value (hd vec) = Min (EnumVal.value ` set vec)"
  by (cases vec) (auto intro!: Min_eqI[symmetric] simp: less_imp_le)

lemma ascending_last_Max:
  "vec \<noteq> [] \<Longrightarrow> sorted_wrt (<) (map EnumVal.value vec) \<Longrightarrow>
   EnumVal.value (last vec) = Max (EnumVal.value ` set vec)"
proof (induction vec)
  case Nil
  then show ?case by simp
next
  case (Cons a vec)
  show ?case
  proof (cases "vec = []")
    case True
    then show ?thesis by simp
  next
    case False
    with Cons have IH: "EnumVal.value (last vec) = Max (EnumVal.value ` set vec)" by simp
    have "EnumVal.value a < EnumVal.value (last vec)" using Cons.prems False by simp
    with IH False show ?thesis by (simp add: max_def)
  qed
qed

lemma ascending_range_pos:
  "vec \<noteq> [] \<Longrightarrow> sorted_wrt (<) (map EnumVal.value vec) \<Longrightarrow>
   EnumVal.value (hd vec) \<le> EnumVal.value (last vec)"
  by (cases vec) (auto simp: less_imp_le)

lemma GenEnum_closed:
  assumes "\<not> EnumDef.generated e" and "enum_ascending e"
  shows "GenEnum X e =
           Some (enum_declaration X e @
                 (if enum_density e < 5 then names_table X e @ names_lookup X e else []) @
                 ''}\<newline>\<newline>'')"
proof -
  let ?vec = "vals e"
  have ne: "?vec \<noteq> []" and asc: "sorted_wrt (<) (map EnumVal.value ?vec)"
    and fits: "\<forall>v \<in> set ?vec. fits_int64 (EnumVal.value v + 1)"
    and fit_range: "fits_int64 (EnumVal.value (last ?vec) - EnumVal.value (hd ?vec) + 1)"
    using assms(2) by (auto simp: enum_ascending_def)
  have fit_front: "fits_int64 (EnumVal.value (hd ?vec))"
    using assms(2) ne by (auto simp: enum_ascending_def)
  have lo: "EnumVal.value (hd ?vec) = min_value e"
    using ascending_hd_Min[OF ne asc] by (simp add: min_value_def)
  have hi: "EnumVal.value (last ?vec) = max_value e"
    using ascending_last_Max[OF ne asc] by (simp add: max_value_def)
  have pos: "0 \<le> EnumVal.value (last ?vec) - EnumVal.value (hd ?vec) + 1"
    using ascending_range_pos[OF ne asc] by simp
  have fit_diff: "fits_int64 (EnumVal.value (last ?vec) - EnumVal.value (hd ?vec))"
    using fit_range ascending_range_pos[OF ne asc] by (simp add: fits_int64_def)
  have dens: "(EnumVal.value (last ?vec) - EnumVal.value (hd ?vec) + 1) sdiv int (length ?vec)
              = enum_density e"
    using pos by (simp add: enum_density_def lo hi sdiv_int_div_0 signed_divide_int_def sgn_if)
  have names: "GenEnum_names X (EnumVal.value (hd ?vec)) ?vec =
     Some (concat (map (\<lambda>v. names_quoted (names_entry X ?vec v)) [min_value e..max_value e]))"
    using GenEnum_names_closed[OF ne asc fits fit_front order_refl] by (simp add: lo hi)
  show ?thesis
    using assms(1) ne fit_range fit_diff
    by (simp add: GenEnum_def Let_def dens names[unfolded lo[symmetric]]
          GenEnum_cases_closed enum_declaration_def
          names_table_def names_entries_def comp_def names_lookup_def kMaxSparseness_def
          lo[symmetric])
qed


lemma names_entry_member:
  "sorted_wrt (<) (map EnumVal.value vec) \<Longrightarrow> v \<in> set vec \<Longrightarrow>
   names_entry X vec (EnumVal.value v) = enum_case_name X v"
  by (induction vec) (auto simp: names_entry_def)

lemma names_entry_gap:
  "i \<notin> EnumVal.value ` set vec \<Longrightarrow> names_entry X vec i = []"
  by (induction vec) (auto simp: names_entry_def)

text \<open>
  Claim C4, as amended. With \<open>range = maxValue - minValue + 1\<close> and
  \<open>density = range / enumeratorCount\<close>, the name table and its lookup function are
  emitted exactly when \<open>density < 5\<close>: for the values 0, 1, 2, 3, 4 (density 1) they are
  emitted, for 0 and 100 (density 50) they are not, and at density 5 they are not.
\<close>

theorem GenEnum_table_iff_density:
  assumes "\<not> EnumDef.generated e" and "enum_ascending e"
  shows "GenEnum X e =
           Some (enum_declaration X e @
                 (if enum_density e < 5 then names_table X e @ names_lookup X e else []) @
                 ''}\<newline>\<newline>'')"
  using assms by (rule GenEnum_closed)

theorem GenEnum_table_iff_density_witness:
  "\<not> EnumDef.generated E_dense \<and> enum_ascending E_dense \<and> enum_density E_dense = 1 \<and>
   GenEnum X0 E_dense =
     Some (enum_declaration X0 E_dense @
           (if enum_density E_dense < 5 then names_table X0 E_dense @ names_lookup X0 E_dense
            else []) @ ''}\<newline>\<newline>'')"
proof -
  have g: "\<not> EnumDef.generated E_dense" by (simp add: E_dense_def enum_of_def)
  have a: "enum_ascending E_dense"
    by (simp add: enum_ascending_def E_dense_def enum_of_def enum_val_def fits_int64_def)
  have d: "enum_density E_dense = 1"
    by (simp add: enum_density_def min_value_def max_value_def E_dense_def enum_of_def enum_val_def)
  show ?thesis using g a d GenEnum_table_iff_density[OF g a, of X0] by simp
qed

text \<open>
  Claim C4 as stated keeps the table at density 5. The values 0 and 9 have density 5,
  and the enum is emitted without a table.
\<close>

theorem GenEnum_density_five_counterexample:
  \<open>enum_density E_five = 5 \<and>
   GenEnum X0 E_five =
     Some ''public enum V : Int8 {\<newline>    case Lo = 0\<newline>    case Hi = 9\<newline>}\<newline>\<newline>''\<close>
proof -
  have "enum_density E_five = 5"
    by (simp add: enum_density_def min_value_def max_value_def E_five_def enum_of_def enum_val_def)
  moreover have "GenEnum X0 E_five =
     Some ''public enum V : Int8 {\<newline>    case Lo = 0\<newline>    case Hi = 9\<newline>}\<newline>\<newline>''"
    by code_simp
  ultimately show ?thesis by simp
qed

text \<open>The values 0 and 100: density 50, no table.\<close>

lemma GenEnum_sparse_example:
  \<open>enum_density E_sparse = 50 \<and>
   GenEnum X0 E_sparse =
     Some ''public enum S : Int8 {\<newline>    case Lo = 0\<newline>    case Hi = 100\<newline>}\<newline>\<newline>''\<close>
proof -
  have "enum_density E_sparse = 50"
    by (simp add: enum_density_def min_value_def max_value_def E_sparse_def enum_of_def enum_val_def)
  moreover have "GenEnum X0 E_sparse =
     Some ''public enum S : Int8 {\<newline>    case Lo = 0\<newline>    case Hi = 100\<newline>}\<newline>\<newline>''"
    by code_simp
  ultimately show ?thesis by simp
qed

text \<open>
  When the name table is emitted it has one entry for every integer from the minimum
  to the maximum value: the entry at index \<open>value - minValue\<close> is the case name of the
  enumerator with that value, and the entry of an integer without enumerator is the
  empty string. The lookup function returns \<^verbatim>\<open>names[e]\<close> when the minimum is zero and
  \<^verbatim>\<open>names[e - N]\<close> otherwise, \<open>N\<close> being the name the schema gives the first enumerator,
  whose value is the minimum.
\<close>

lemma GenEnum_names_positional:
  assumes "\<not> EnumDef.generated e" and "enum_ascending e" and "enum_density e < 5"
  shows \<open>GenEnum X e =
           Some (enum_declaration X e @
                 ''\<newline>  public static let names : [String] = [ '' @
                 concat (map (\<lambda>s. ''"'' @ s @ ''", '') (names_entries X e)) @
                 '']\<newline>\<newline>'' @
                 ''  public static func '' @ MakeCamel X ''name'' False @
                 ''(_ e: Int) -> String { return names[e'' @
                 (if min_value e \<noteq> 0 then '' - '' @ EnumVal.name (hd (vals e)) else []) @
                 '']; }\<newline>}\<newline>\<newline>'')
         \<and> int (length (names_entries X e)) = max_value e - min_value e + 1
         \<and> (\<forall>v \<in> set (vals e).
               names_entries X e ! nat (EnumVal.value v - min_value e) = enum_case_name X v)
         \<and> (\<forall>i \<in> {min_value e..max_value e} - EnumVal.value ` set (vals e).
               names_entries X e ! nat (i - min_value e) = [])
         \<and> EnumVal.value (hd (vals e)) = min_value e\<close>
proof -
  let ?vec = "vals e"
  have ne: "?vec \<noteq> []" and asc: "sorted_wrt (<) (map EnumVal.value ?vec)"
    using assms(2) by (auto simp: enum_ascending_def)
  have out: "GenEnum X e =
           Some (enum_declaration X e @
                 ''\<newline>  public static let names : [String] = [ '' @
                 concat (map (\<lambda>s. [CHR 0x22] @ s @ [CHR 0x22, CHR '','', CHR '' ''])
                           (names_entries X e)) @
                 '']\<newline>\<newline>'' @
                 ''  public static func '' @ MakeCamel X ''name'' False @
                 ''(_ e: Int) -> String { return names[e'' @
                 (if min_value e \<noteq> 0 then '' - '' @ EnumVal.name (hd (vals e)) else []) @
                 '']; }\<newline>}\<newline>\<newline>'')"
    using GenEnum_closed[OF assms(1,2), of X] assms(3)
    by (simp add: names_table_def names_lookup_def names_quoted_def[abs_def])
  have lo: "EnumVal.value (hd ?vec) = min_value e"
    using ascending_hd_Min[OF ne asc] by (simp add: min_value_def)
  have hi: "EnumVal.value (last ?vec) = max_value e"
    using ascending_last_Max[OF ne asc] by (simp add: max_value_def)
  have le: "min_value e \<le> max_value e"
    using ascending_range_pos[OF ne asc] by (simp add: lo hi)
  have len: "int (length (names_entries X e)) = max_value e - min_value e + 1"
    using le by (simp add: names_entries_def)
  have bounds: "\<And>i. i \<in> EnumVal.value ` set ?vec \<Longrightarrow> min_value e \<le> i \<and> i \<le> max_value e"
    by (auto simp: min_value_def max_value_def)
  have nth: "\<And>i. min_value e \<le> i \<Longrightarrow> i \<le> max_value e \<Longrightarrow>
               names_entries X e ! nat (i - min_value e) = names_entry X ?vec i"
    by (simp add: names_entries_def nth_upto)
  have members: "\<forall>v \<in> set ?vec.
           names_entries X e ! nat (EnumVal.value v - min_value e) = enum_case_name X v"
    using bounds nth names_entry_member[OF asc] by auto
  have gaps: "\<forall>i \<in> {min_value e..max_value e} - EnumVal.value ` set ?vec.
           names_entries X e ! nat (i - min_value e) = []"
    using nth names_entry_gap by auto
  from out len members gaps lo show ?thesis by simp
qed

lemma GenEnum_names_positional_example:
  \<open>\<not> EnumDef.generated E_gap \<and> enum_ascending E_gap \<and> enum_density E_gap < 5 \<and>
   GenEnum X0 E_gap =
     Some (enum_declaration X0 E_gap @
           ''\<newline>  public static let names : [String] = [ '' @
           concat (map (\<lambda>s. ''"'' @ s @ ''", '') (names_entries X0 E_gap)) @
           '']\<newline>\<newline>'' @
           ''  public static func '' @ MakeCamel X0 ''name'' False @
           ''(_ e: Int) -> String { return names[e'' @
           (if min_value E_gap \<noteq> 0 then '' - '' @ EnumVal.name (hd (vals E_gap)) else []) @
           '']; }\<newline>}\<newline>\<newline>'') \<and>
   names_entries X0 E_gap = [''Red'', ''Green'', [], ''Blue''] \<and> min_value E_gap = 1\<close>
proof -
  have g: "\<not> EnumDef.generated E_gap" by (simp add: E_gap_def enum_of_def)
  have a: "enum_ascending E_gap"
    by (simp add: enum_ascending_def E_gap_def enum_of_def enum_val_def fits_int64_def)
  have lo: "min_value E_gap = 1" and hi: "max_value E_gap = 4"
    by (simp_all add: min_value_def max_value_def E_gap_def enum_of_def enum_val_def)
  have d: "enum_density E_gap < 5"
    by (simp add: enum_density_def lo hi) (simp add: E_gap_def enum_of_def)
  have up: "[1..4::int] = [1, 2, 3, 4]" by code_simp
  have mc: "MakeCamel0 ''Red'' False = ''Red''" "MakeCamel0 ''Green'' False = ''Green''"
    "MakeCamel0 ''Blue'' False = ''Blue''"
    by code_simp+
  have n: "names_entries X0 E_gap = [''Red'', ''Green'', [], ''Blue'']"
    by (simp add: names_entries_def lo hi up)
       (simp add: E_gap_def enum_of_def enum_val_def names_entry_def enum_case_name_def X0_def mc)
  show ?thesis using g a d n lo GenEnum_names_positional[OF g a d, of X0] by simp
qed

text \<open>
  Claim C5 asks that the lookup function of an enum with a nonzero minimum subtract
  the minimum enumerator value from the queried index. For
  \<^verbatim>\<open>enum N : byte { NONE = 1, my_val = 2 }\<close> the positional table is emitted, and the
  lookup function subtracts \<^verbatim>\<open>NONE\<close>: the name the schema gives the first enumerator,
  which is neither the value \<^verbatim>\<open>1\<close> nor a name the emitted code declares, the cases of
  the emitted enum being \<^verbatim>\<open>none\<close> and \<^verbatim>\<open>myVal\<close>.
\<close>

theorem GenEnum_lookup_subtracts_schema_name:
  \<open>EnumVal.value (hd (vals E_none)) = 1 \<and>
   GenEnum X0 E_none =
     Some ''public enum N : Int8 {\<newline>    case none = 1\<newline>    case myVal = 2\<newline>\<newline>  public static let names : [String] = [ "none", "myVal", ]\<newline>\<newline>  public static func name(_ e: Int) -> String { return names[e - NONE]; }\<newline>}\<newline>\<newline>''\<close>
proof -
  have \<open>GenEnum X0 E_none =
     Some ''public enum N : Int8 {\<newline>    case none = 1\<newline>    case myVal = 2\<newline>\<newline>  public static let names : [String] = [ "none", "myVal", ]\<newline>\<newline>  public static func name(_ e: Int) -> String { return names[e - NONE]; }\<newline>}\<newline>\<newline>''\<close>
    by code_simp
  moreover have "EnumVal.value (hd (vals E_none)) = 1"
    by (simp add: E_none_def enum_of_def enum_val_def)
  ultimately show ?thesis by simp
qed

theorem GenEnum_lookup_subtracts_schema_name_witness:
  \<open>GenEnum_cases X0 (vals E_none) = ''    case none = 1\<newline>    case myVal = 2\<newline>'' \<and>
   (\<exists>head. GenEnum X0 E_none =
      Some (head @ ''(_ e: Int) -> String { return names[e - NONE]; }\<newline>}\<newline>\<newline>''))\<close>
proof -
  have c: \<open>GenEnum_cases X0 (vals E_none) = ''    case none = 1\<newline>    case myVal = 2\<newline>''\<close>
    by code_simp
  from GenEnum_lookup_subtracts_schema_name
  have \<open>GenEnum X0 E_none =
      Some (''public enum N : Int8 {\<newline>    case none = 1\<newline>    case myVal = 2\<newline>\<newline>  public static let names : [String] = [ "none", "myVal", ]\<newline>\<newline>  public static func name'' @
            ''(_ e: Int) -> String { return names[e - NONE]; }\<newline>}\<newline>\<newline>'')\<close>
    by simp
  then have \<open>\<exists>head. GenEnum X0 E_none =
      Some (head @ ''(_ e: Int) -> String { return names[e - NONE]; }\<newline>}\<newline>\<newline>'')\<close>
    by blast
  with c show ?thesis by simp
qed

subsection \<open>Evaluation of \<open>FunctionStart\<close>\<close>

lemma FunctionStart_simps [simp]:
  "FunctionStart (CHR ''G'') = ''g''" "FunctionStart (CHR ''P'') = ''p''"
  "FunctionStart (CHR ''C'') = ''c''" "FunctionStart (CHR ''S'') = ''s''"
  "FunctionStart (CHR ''A'') = ''a''" "FunctionStart (CHR ''E'') = ''e''"
  "FunctionStart (CHR ''R'') = ''r''" "FunctionStart (CHR ''F'') = ''f''"
  "FunctionStart (CHR ''L'') = ''l''"
  by code_simp+

subsection \<open>Required fields in the \<open>end\<close> method\<close>

lemma GenStruct_end_required_closed:
  "GenStruct_end_required X vec =
     concat (map (required_check X) (filter (\<lambda>f. \<not> deprecated f \<and> required f) vec))"
  by (induction vec) (simp_all add: required_check_def)

text \<open>
  Claim C8, as amended. The \<^verbatim>\<open>end\<close> method of a table finishes the object and then
  emits one check for every field that is required and not deprecated, in declaration
  order, and no check for any other field.
\<close>

theorem GenStruct_end_checks_required:
  \<open>GenStruct_end X sd =
     ''  public static func end'' @ StructDef.name sd @
     ''(_ builder: FlatBufferBuilder) -> Offset<'' @ StructDef.name sd @
     ''> {\<newline>    let o = builder.endObject();\<newline>'' @
     concat (map (required_check X)
               (filter (\<lambda>f. \<not> deprecated f \<and> required f) (StructDef.fields sd))) @
     ''    return Offset<'' @ StructDef.name sd @ ''>(o);\<newline>  }\<newline>''\<close>
  by (simp add: GenStruct_end_def GenStruct_end_required_closed GenOffsetType_def
        GenOffsetConstruct_def)

theorem GenStruct_end_checks_required_witness:
  \<open>GenStruct_end X0 T_named =
     ''  public static func endNamed'' @
     ''(_ builder: FlatBufferBuilder) -> Offset<Named'' @
     ''> {\<newline>    let o = builder.endObject();\<newline>'' @
     concat (map (required_check X0) [F_name]) @
     ''    return Offset<Named>(o);\<newline>  }\<newline>''\<close>
proof -
  have "filter (\<lambda>f. \<not> deprecated f \<and> required f) (StructDef.fields T_named) = [F_name]"
    by (simp add: T_named_def table_of_def F_name_def F_old_def F_note_def field_of_def)
  moreover have "StructDef.name T_named = ''Named''"
    by (simp add: T_named_def table_of_def)
  ultimately show ?thesis
    using GenStruct_end_checks_required[of X0 T_named] by simp
qed

text \<open>
  Claim C8 as stated asks for a check for every required field. The field \<open>old\<close> of the
  sample table is required and deprecated, and the method checks \<open>name\<close> only.
\<close>

theorem GenStruct_end_deprecated_required_counterexample:
  \<open>required F_old \<and> F_old \<in> set (StructDef.fields T_named) \<and>
   GenStruct_end X0 T_named =
     ''  public static func endNamed(_ builder: FlatBufferBuilder) -> Offset<Named> {\<newline>    let o = builder.endObject();\<newline>    builder.`required`(o, 4);  // name\<newline>    return Offset<Named>(o);\<newline>  }\<newline>''\<close>
proof -
  have "GenStruct_end X0 T_named =
     ''  public static func endNamed(_ builder: FlatBufferBuilder) -> Offset<Named> {\<newline>    let o = builder.endObject();\<newline>    builder.`required`(o, 4);  // name\<newline>    return Offset<Named>(o);\<newline>  }\<newline>''"
    by code_simp
  moreover have "required F_old \<and> F_old \<in> set (StructDef.fields T_named)"
    by (simp add: T_named_def table_of_def F_old_def field_of_def)
  ultimately show ?thesis by simp
qed

subsection \<open>The lookup routine\<close>

text \<open>For a key that is not a string the routine is its signature and nothing else.\<close>

lemma LookupByKey_other_key:
  \<open>base_type (type (value' key_field)) \<noteq> BASE_TYPE_STRING \<Longrightarrow>
   GenTypeNameDest X (type (value' key_field)) = Some tnd \<Longrightarrow>
   GenStruct_LookupByKey X sd key_field =
     Some (''\<newline>  public static func lookupByKey(vectorOffset: VectorOffset, key: '' @ tnd @
           '', _ bb: ByteBuffer) -> '' @ StructDef.name sd @ ''? {\<newline>'')\<close>
  by (simp add: GenStruct_LookupByKey_def GenVectorOffsetType_def)

text \<open>
  Claim C1 asks for the complete binary search for a numeric key as for a string key.
  For the table \<^verbatim>\<open>table Keyed { id:int (key); }\<close> the generator emits the signature of
  \<^verbatim>\<open>lookupByKey\<close> and no statement after it.
\<close>

theorem LookupByKey_integer_key_no_body:
  \<open>has_key T_keyed \<and> GenStruct_key_field None (StructDef.fields T_keyed) = Some F_id \<and>
   GenStruct_LookupByKey X0 T_keyed F_id =
     Some ''\<newline>  public static func lookupByKey(vectorOffset: VectorOffset, key: Int32, _ bb: ByteBuffer) -> Keyed? {\<newline>''\<close>
proof -
  have "GenStruct_LookupByKey X0 T_keyed F_id =
     Some ''\<newline>  public static func lookupByKey(vectorOffset: VectorOffset, key: Int32, _ bb: ByteBuffer) -> Keyed? {\<newline>''"
    by code_simp
  moreover have "has_key T_keyed \<and> GenStruct_key_field None (StructDef.fields T_keyed) = Some F_id"
    by (simp add: T_keyed_def table_of_def F_id_def field_of_def)
  ultimately show ?thesis by simp
qed

subsection \<open>Read accessors of table fields\<close>

text \<open>
  Claim C7 asks, for the element accessor of a vector of scalars other than booleans,
  for a zero cast to the element type when the slot is absent. For the field
  \<^verbatim>\<open>nums:[int]\<close> of \<^verbatim>\<open>table Nums { nums:[int]; }\<close> the generator emits \<^verbatim>\<open>return Int32(0 }\<close>
  there: the cast is opened and never closed. The accessor of the scalar field
  \<^verbatim>\<open>a:int\<close> closes it: \<^verbatim>\<open>return Int32(0) }\<close>.
\<close>

theorem vector_accessor_absent_cast_open:
  \<open>\<not> deprecated F_nums \<and>
   base_type (type (value' F_nums)) = BASE_TYPE_VECTOR \<and>
   element (type (value' F_nums)) = BASE_TYPE_INT \<and>
   GenStruct_accessor X0 T_nums F_nums =
     Some ''    public func nums(at j: Int) ->  { let o = __p.__offset(4); if o != 0 { return __p.bb.getInt32(at: __p.__vector(o) + j * 4) } else { return Int32(0 } ; }\<newline>'' \<and>
   GenStruct_accessor X0 T_sized F_a =
     Some ''  public var a : Int32  { get { let o = __p.__offset(4); if o != 0 { return __p.bb.getInt32(at: o + __p.bb_pos) } else { return Int32(0) }; } }\<newline>''\<close>
proof -
  have "GenStruct_accessor X0 T_nums F_nums =
     Some ''    public func nums(at j: Int) ->  { let o = __p.__offset(4); if o != 0 { return __p.bb.getInt32(at: __p.__vector(o) + j * 4) } else { return Int32(0 } ; }\<newline>''"
    by code_simp
  moreover have "GenStruct_accessor X0 T_sized F_a =
     Some ''  public var a : Int32  { get { let o = __p.__offset(4); if o != 0 { return __p.bb.getInt32(at: o + __p.bb_pos) } else { return Int32(0) }; } }\<newline>''"
    by code_simp
  moreover have "\<not> deprecated F_nums \<and>
     base_type (type (value' F_nums)) = BASE_TYPE_VECTOR \<and>
     element (type (value' F_nums)) = BASE_TYPE_INT"
    by (simp add: F_nums_def field_of_def)
  ultimately show ?thesis by simp
qed

theorem vector_accessor_absent_cast_open_witness:
  \<open>(\<exists>head. GenStruct_accessor X0 T_nums F_nums =
      Some (head @ '' } else { return Int32(0 } ; }\<newline>'')) \<and>
   (\<exists>head. GenStruct_accessor X0 T_sized F_a =
      Some (head @ '' } else { return Int32(0) }; } }\<newline>''))\<close>
proof -
  from vector_accessor_absent_cast_open
  have \<open>GenStruct_accessor X0 T_nums F_nums =
      Some (''    public func nums(at j: Int) ->  { let o = __p.__offset(4); if o != 0 { return __p.bb.getInt32(at: __p.__vector(o) + j * 4)'' @
            '' } else { return Int32(0 } ; }\<newline>'')\<close>
    and \<open>GenStruct_accessor X0 T_sized F_a =
      Some (''  public var a : Int32  { get { let o = __p.__offset(4); if o != 0 { return __p.bb.getInt32(at: o + __p.bb_pos)'' @
            '' } else { return Int32(0) }; } }\<newline>'')\<close>
    by simp_all
  then show ?thesis by blast
qed

text \<open>
  The default of a field of an enum type is written with the name the schema gives the
  enumerator, \<^verbatim>\<open>K.a_b\<close>, where the emitted enum declares the case \<^verbatim>\<open>aB\<close>.
\<close>

lemma enum_field_default_schema_name:
  \<open>GenEnum_cases X0 (vals E_kind) = ''    case aB = 0\<newline>    case cD = 1\<newline>'' \<and>
   GenStruct_accessor X0 T_kind F_kind =
     Some ''  public var kind : K  { get { let o = __p.__offset(4); if o != 0 { return K(rawValue: __p.bb.getInt8(at: o + __p.bb_pos))! } else { return (K.a_b) }; } }\<newline>''\<close>
proof -
  have \<open>GenEnum_cases X0 (vals E_kind) = ''    case aB = 0\<newline>    case cD = 1\<newline>''\<close>
    by code_simp
  moreover have "GenStruct_accessor X0 T_kind F_kind =
     Some ''  public var kind : K  { get { let o = __p.__offset(4); if o != 0 { return K(rawValue: __p.bb.getInt8(at: o + __p.bb_pos))! } else { return (K.a_b) }; } }\<newline>''"
    by code_simp
  ultimately show ?thesis by simp
qed

lemma string_field_rest:
  assumes "base_type (type (value' field)) = BASE_TYPE_STRING"
  shows "GenStruct_mutator X parser' sd field = Some []"
    and "GenStruct_vector_length X field = []"
    and \<open>GenStruct_bytes X field =
           ''  public func get'' @ MakeCamel X (FieldDef.name field) True @
           ''Bytes() -> UnsafeMutableRawBufferPointer? { return __p.__vector_as_arraysegment('' @
           NumToString X (int (offset (value' field))) @ ''); }\<newline>''\<close>
  using assms
  by (simp_all add: GenStruct_mutator_def GenStruct_vector_length_def GenStruct_bytes_def
        GenTypeNameDest_def DestinationType_def GenTypeGet.simps GenTypePointer.simps
        IsScalar_def Let_def)

text \<open>
  Claim C6. The read accessor of a string field reads the slot of the field, returns
  the string when the slot is not zero and, when it is zero (the field is absent),
  calls \<^verbatim>\<open>fatalError()\<close> if the field is required and returns \<^verbatim>\<open>nil\<close> if it is not. A
  field that is not deprecated gets this accessor, followed by its byte accessor; a
  deprecated field gets nothing.
\<close>

theorem string_accessor_required_fatal:
  assumes "base_type (type (value' field)) = BASE_TYPE_STRING"
  shows \<open>GenStruct_accessor X sd field =
           Some (GenComment X (FieldDef.doc_comment field) ''  '' @
                 ''  public var '' @ MakeCamel X (FieldDef.name field) False @
                 '' : String  { get { let o = __p.__offset('' @
                 NumToString X (int (offset (value' field))) @ ''); if o != 0 { '' @
                 ''return __p.__string(at: o + __p.bb_pos) } else {'' @
                 (if required field then '' fatalError() }'' else '' return nil }'') @
                 ''; } }\<newline>'') \<and>
         (\<not> deprecated field \<longrightarrow>
            GenStruct_field X parser' sd field =
              map_option
                (\<lambda>nested.
                   GenComment X (FieldDef.doc_comment field) ''  '' @
                   ''  public var '' @ MakeCamel X (FieldDef.name field) False @
                   '' : String  { get { let o = __p.__offset('' @
                   NumToString X (int (offset (value' field))) @ ''); if o != 0 { '' @
                   ''return __p.__string(at: o + __p.bb_pos) } else {'' @
                   (if required field then '' fatalError() }'' else '' return nil }'') @
                   ''; } }\<newline>'' @ GenStruct_bytes X field @ nested)
                (GenStruct_nested X field)) \<and>
         (deprecated field \<longrightarrow> GenStruct_field X parser' sd field = Some [])\<close>
proof -
  let ?t = "type (value' field)"
  have facts: "GenTypeGet X ?t = Some ''String''" "GenTypeNameDest X ?t = Some ''String''"
    "DestinationMask ?t = Some []" "DestinationCast ?t = Some []"
    "GenGetter X ?t = Some ''__p.__string''" "\<not> IsScalar (base_type ?t)"
    using assms
    by (simp_all add: GenTypeNameDest_def DestinationType_def DestinationMask_def IsEnum_def
        IsInteger_def IsScalar_def GenTypeGet.simps GenTypePointer.simps
        DestinationCast.simps GenGetter.simps)
  have acc: "GenStruct_accessor X sd field =
           Some (GenComment X (FieldDef.doc_comment field) ''  '' @
                 ''  public var '' @ MakeCamel X (FieldDef.name field) False @
                 '' : String  { get { let o = __p.__offset('' @
                 NumToString X (int (offset (value' field))) @ ''); if o != 0 { '' @
                 ''return __p.__string(at: o + __p.bb_pos) } else {'' @
                 (if required field then '' fatalError() }'' else '' return nil }'') @
                 ''; } }\<newline>'')"
    using assms facts(6) by (simp add: GenStruct_accessor_def offset_prefix_def facts Let_def)
  have fld: "\<not> deprecated field \<Longrightarrow>
            GenStruct_field X parser' sd field =
              map_option
                (\<lambda>nested.
                   GenComment X (FieldDef.doc_comment field) ''  '' @
                   ''  public var '' @ MakeCamel X (FieldDef.name field) False @
                   '' : String  { get { let o = __p.__offset('' @
                   NumToString X (int (offset (value' field))) @ ''); if o != 0 { '' @
                   ''return __p.__string(at: o + __p.bb_pos) } else {'' @
                   (if required field then '' fatalError() }'' else '' return nil }'') @
                   ''; } }\<newline>'' @ GenStruct_bytes X field @ nested)
                (GenStruct_nested X field)"
    by (cases "GenStruct_nested X field")
       (simp_all add: GenStruct_field_def acc string_field_rest(1,2)[OF assms])
  have dep: "deprecated field \<Longrightarrow> GenStruct_field X parser' sd field = Some []"
    by (simp add: GenStruct_field_def)
  from acc fld dep show ?thesis by blast
qed

theorem string_accessor_required_fatal_witness:
  \<open>base_type (type (value' F_name)) = BASE_TYPE_STRING \<and> required F_name \<and>
   \<not> deprecated F_name \<and>
   GenStruct_accessor X0 T_named F_name =
     Some ''  public var name : String  { get { let o = __p.__offset(4); if o != 0 { return __p.__string(at: o + __p.bb_pos) } else { fatalError() }; } }\<newline>'' \<and>
   GenStruct_field X0 P0 T_named F_name =
     Some ''  public var name : String  { get { let o = __p.__offset(4); if o != 0 { return __p.__string(at: o + __p.bb_pos) } else { fatalError() }; } }\<newline>  public func getNameBytes() -> UnsafeMutableRawBufferPointer? { return __p.__vector_as_arraysegment(4); }\<newline>'' \<and>
   base_type (type (value' F_note)) = BASE_TYPE_STRING \<and> \<not> required F_note \<and>
   \<not> deprecated F_note \<and>
   GenStruct_accessor X0 T_named F_note =
     Some ''  public var note : String  { get { let o = __p.__offset(8); if o != 0 { return __p.__string(at: o + __p.bb_pos) } else { return nil }; } }\<newline>'' \<and>
   base_type (type (value' F_old)) = BASE_TYPE_STRING \<and> deprecated F_old \<and>
   GenStruct_field X0 P0 T_named F_old = Some []\<close>
proof -
  have s: "base_type (type (value' F_name)) = BASE_TYPE_STRING"
    "base_type (type (value' F_note)) = BASE_TYPE_STRING"
    "base_type (type (value' F_old)) = BASE_TYPE_STRING"
    by (simp_all add: F_name_def F_note_def F_old_def field_of_def scalar_def)
  have r: "required F_name" "\<not> deprecated F_name" "\<not> required F_note"
    "\<not> deprecated F_note" "deprecated F_old"
    by (simp_all add: F_name_def F_note_def F_old_def field_of_def)
  have parts: "GenComment X0 (FieldDef.doc_comment F_name) ''  '' = []"
    "MakeCamel X0 (FieldDef.name F_name) False = ''name''"
    "NumToString X0 (int (offset (value' F_name))) = ''4''"
    "GenComment X0 (FieldDef.doc_comment F_note) ''  '' = []"
    "MakeCamel X0 (FieldDef.name F_note) False = ''note''"
    "NumToString X0 (int (offset (value' F_note))) = ''8''"
    "GenStruct_nested X0 F_name = Some []"
    \<open>GenStruct_bytes X0 F_name =
       ''  public func getNameBytes() -> UnsafeMutableRawBufferPointer? { return __p.__vector_as_arraysegment(4); }\<newline>''\<close>
    by code_simp+
  show ?thesis
    using string_accessor_required_fatal[OF s(1), of X0 T_named P0]
      string_accessor_required_fatal[OF s(2), of X0 T_named P0]
      string_accessor_required_fatal[OF s(3), of X0 T_named P0]
    by (simp add: s r parts)
qed

subsection \<open>Mutators\<close>

lemma scalar_not_indirect:
  "IsScalar bt \<Longrightarrow>
   bt \<noteq> BASE_TYPE_VECTOR \<and> bt \<noteq> BASE_TYPE_UNION \<and> bt \<noteq> BASE_TYPE_STRING \<and>
   bt \<noteq> BASE_TYPE_STRUCT \<and> bt \<noteq> BASE_TYPE_NONE"
  by (auto simp: IsScalar_def)

lemma SourceCast_empty: "SourceCast t c = []"
proof (induction t c rule: SourceCast.induct)
  case (1 t castFromDest)
  then show ?case by (subst SourceCast.simps) simp
qed

lemma scalar_GenTypeNameDest:
  assumes "IsScalar (base_type t)"
  shows "GenTypeNameDest X t = Some (scalar_type_name X t)"
  using assms scalar_not_indirect[OF assms]
  by (cases "enum_def t")
     (simp_all add: GenTypeNameDest_def DestinationType_def IsEnum_def GenTypeGet.simps
        GenTypeBasic_def scalar_type_name_def)

lemma scalar_GenSetter:
  assumes "IsScalar (base_type t)"
  shows "GenSetter X t =
           Some (''__p.bb.put'' @
                 (if swift_typename X (base_type t) \<noteq> ''byte'' \<and> base_type t \<noteq> BASE_TYPE_BOOL
                  then MakeCamel X (swift_typename X (base_type t)) True else []))"
  using assms by (simp add: GenSetter_def GenTypeBasic_def)

lemma mutator_not_mutable_kind:
  assumes "\<not> mutable_kind (type (value' field))"
  shows "GenStruct_mutator X parser' sd field = Some [] \<or>
         GenStruct_mutator X parser' sd field = None"
proof (cases "base_type (type (value' field)) = BASE_TYPE_VECTOR")
  case True
  with assms have ns: "\<not> IsScalar (element (type (value' field)))"
    "\<not> IsScalar BASE_TYPE_VECTOR"
    by (simp_all add: mutable_kind_def IsScalar_def)
  show ?thesis
    using True ns
    by (cases "GenTypeNameDest X (VectorType (type (value' field)))")
       (simp_all add: GenStruct_mutator_def Let_def VectorType_def)
next
  case False
  with assms have ns: "\<not> IsScalar (base_type (type (value' field)))"
    by (simp add: mutable_kind_def)
  show ?thesis
    using False ns
    by (cases "GenTypeNameDest X (type (value' field))")
       (simp_all add: GenStruct_mutator_def Let_def)
qed

lemma mutator_mutable_kind:
  assumes "mutable_buffer (opts parser')" and "mutable_kind (type (value' field))"
  shows \<open>GenStruct_mutator X parser' sd field =
           Some (''  public '' @ (if StructDef.fixed sd then ''void '' else ''Bool'') @
                 mutator_signature X field @
                 (if StructDef.fixed sd
                  then mutator_store X sd field @ ''); }\<newline>''
                  else ''let o = __p.__offset('' @
                       NumToString X (int (offset (value' field))) @ ''); if (o != 0) { '' @
                       mutator_store X sd field @
                       ''); return true; } else { return false; } }\<newline>''))\<close>
proof (cases "base_type (type (value' field)) = BASE_TYPE_VECTOR")
  case True
  let ?u = "VectorType (type (value' field))"
  have u: "IsScalar (base_type ?u)"
    using assms(2) True by (simp add: mutable_kind_def VectorType_def IsScalar_def)
  have e: "IsScalar (element (type (value' field)))"
    using u by (simp add: VectorType_def)
  note facts = scalar_GenTypeNameDest[OF u, of X] scalar_GenSetter[OF u, of X]
  have bt: "base_type ?u = element (type (value' field))"
    by (simp add: VectorType_def)
  show ?thesis
    using assms(1) True e
    by (cases "StructDef.fixed sd")
       (simp_all add: GenStruct_mutator_def Let_def SourceCast_empty facts bt
            mutator_signature_def mutator_store_def)
next
  case False
  let ?u = "type (value' field)"
  have u: "IsScalar (base_type ?u)"
    using assms(2) False by (simp add: mutable_kind_def)
  note facts = scalar_GenTypeNameDest[OF u, of X] scalar_GenSetter[OF u, of X]
  show ?thesis
    using assms(1) False u
    by (cases "StructDef.fixed sd")
       (simp_all add: GenStruct_mutator_def Let_def SourceCast_empty facts
            mutator_signature_def mutator_store_def)
qed


text \<open>
  Claim C9. A mutator is emitted only when the option \<^verbatim>\<open>mutable_buffer\<close> is set, only for
  a scalar field or a vector of scalars, and never for a deprecated field. For a field of
  a table it looks the slot up, returns \<^verbatim>\<open>false\<close> when the slot is absent, and writes and
  returns \<^verbatim>\<open>true\<close> when it is present; for a field of a struct it writes at the field's
  position and returns nothing.
\<close>

theorem mutator_generation:
  \<open>(\<not> mutable_buffer (opts parser') \<longrightarrow> GenStruct_mutator X parser' sd field = Some []) \<and>
   (\<not> mutable_kind (type (value' field)) \<longrightarrow>
      GenStruct_mutator X parser' sd field = Some [] \<or>
      GenStruct_mutator X parser' sd field = None) \<and>
   (mutable_buffer (opts parser') \<and> mutable_kind (type (value' field)) \<and>
    \<not> StructDef.fixed sd \<longrightarrow>
      GenStruct_mutator X parser' sd field =
        Some (''  public Bool'' @ mutator_signature X field @
              ''let o = __p.__offset('' @ NumToString X (int (offset (value' field))) @
              ''); if (o != 0) { '' @ mutator_store X sd field @
              ''); return true; } else { return false; } }\<newline>'')) \<and>
   (mutable_buffer (opts parser') \<and> mutable_kind (type (value' field)) \<and>
    StructDef.fixed sd \<longrightarrow>
      GenStruct_mutator X parser' sd field =
        Some (''  public void '' @ mutator_signature X field @
              mutator_store X sd field @ ''); }\<newline>'')) \<and>
   (deprecated field \<longrightarrow> GenStruct_field X parser' sd field = Some [])\<close>
proof (intro conjI impI)
  assume "\<not> mutable_buffer (opts parser')"
  then show "GenStruct_mutator X parser' sd field = Some []"
    by (simp add: GenStruct_mutator_def)
next
  assume "\<not> mutable_kind (type (value' field))"
  then show "GenStruct_mutator X parser' sd field = Some [] \<or>
      GenStruct_mutator X parser' sd field = None"
    by (rule mutator_not_mutable_kind)
next
  assume "mutable_buffer (opts parser') \<and> mutable_kind (type (value' field)) \<and>
    \<not> StructDef.fixed sd"
  then show "GenStruct_mutator X parser' sd field =
        Some (''  public Bool'' @ mutator_signature X field @
              ''let o = __p.__offset('' @ NumToString X (int (offset (value' field))) @
              ''); if (o != 0) { '' @ mutator_store X sd field @
              ''); return true; } else { return false; } }\<newline>'')"
    using mutator_mutable_kind[of parser' field X sd] by simp
next
  assume "mutable_buffer (opts parser') \<and> mutable_kind (type (value' field)) \<and>
    StructDef.fixed sd"
  then show "GenStruct_mutator X parser' sd field =
        Some (''  public void '' @ mutator_signature X field @
              mutator_store X sd field @ ''); }\<newline>'')"
    using mutator_mutable_kind[of parser' field X sd] by simp
next
  assume "deprecated field"
  then show "GenStruct_field X parser' sd field = Some []"
    by (simp add: GenStruct_field_def)
qed

theorem mutator_generation_witness:
  \<open>mutable_buffer (opts P0) \<and> mutable_kind (type (value' F_a)) \<and>
   \<not> StructDef.fixed T_sized \<and>
   GenStruct_mutator X0 P0 T_sized F_a =
     Some (''  public Bool'' @ mutator_signature X0 F_a @
           ''let o = __p.__offset('' @ NumToString X0 (int (offset (value' F_a))) @
           ''); if (o != 0) { '' @ mutator_store X0 T_sized F_a @
           ''); return true; } else { return false; } }\<newline>'') \<and>
   mutator_signature X0 F_a = ''mutateA(Int32 a) { '' \<and>
   mutator_store X0 T_sized F_a = ''__p.bb.putInt32(o + __p.bb_pos, a'' \<and>
   \<not> mutable_kind (type (value' F_note)) \<and>
   GenStruct_mutator X0 P0 T_named F_note = Some []\<close>
proof -
  have m: "mutable_buffer (opts P0)" by (simp add: P0_def)
  have k: "mutable_kind (type (value' F_a))"
    by (simp add: mutable_kind_def F_a_def field_of_def scalar_def IsScalar_def)
  have t: "\<not> StructDef.fixed T_sized" by (simp add: T_sized_def table_of_def)
  have s: "mutator_signature X0 F_a = ''mutateA(Int32 a) { ''"
    "mutator_store X0 T_sized F_a = ''__p.bb.putInt32(o + __p.bb_pos, a''"
    by code_simp+
  have n: "\<not> mutable_kind (type (value' F_note))"
    by (simp add: mutable_kind_def F_note_def field_of_def scalar_def IsScalar_def)
  have e: "GenStruct_mutator X0 P0 T_named F_note = Some []" by code_simp
  show ?thesis
    using mutator_generation[of P0 X0 T_sized F_a] m k t s n e by simp
qed

subsection \<open>The builder of a table\<close>

lemma GenStruct_create_pass_closed:
  "GenStruct_create_pass X sd size' rvec =
     concat (map (create_add_call X sd)
       (filter (\<lambda>f. \<not> deprecated f \<and>
                     (\<not> sortbysize sd \<or> size' = SizeOf X (base_type (type (value' f)))))
          rvec))"
  by (induction rvec) (simp_all add: create_add_call_def Let_def)

lemma GenStruct_create_sizes_8:
  "GenStruct_create_sizes X sd 8 =
     concat (map (\<lambda>size'. GenStruct_create_pass X sd size' (rev (StructDef.fields sd)))
               [8, 4, 2, 1])"
proof -
  have h: "(8::nat) div 2 = 4" "(4::nat) div 2 = 2" "(2::nat) div 2 = 1" "(1::nat) div 2 = 0"
    by simp_all
  show ?thesis
    apply (subst GenStruct_create_sizes.simps)
    apply (simp only: h)
    apply (subst GenStruct_create_sizes.simps)
    apply (simp only: h)
    apply (subst GenStruct_create_sizes.simps)
    apply (simp only: h)
    apply (subst GenStruct_create_sizes.simps)
    apply (simp only: h)
    apply (subst GenStruct_create_sizes.simps)
    apply simp
    done
qed

lemma GenStruct_create_table_shape:
  assumes "GenStruct_create_table X sd = Some code" and "code \<noteq> []"
  shows "\<exists>params. code = create_begin X sd params @
           GenStruct_create_sizes X sd
             (if sortbysize sd then sizeof_largest_scalar_t X else 1) @
           create_end sd"
proof (cases "GenStruct_count (StructDef.fields sd) (True, 0)")
  case None
  with assms show ?thesis by (simp add: GenStruct_create_table_def)
next
  case (Some r)
  obtain h n where r: "r = (h, n)" by (cases r)
  show ?thesis
  proof (cases "h \<and> n \<noteq> 0")
    case False
    with assms Some r show ?thesis by (auto simp: GenStruct_create_table_def)
  next
    case True
    show ?thesis
    proof (cases "GenStruct_create_params X (StructDef.fields sd)")
      case None
      with assms Some r True show ?thesis by (simp add: GenStruct_create_table_def)
    next
      case (Some params)
      have "code = create_begin X sd params @
           GenStruct_create_sizes X sd
             (if sortbysize sd then sizeof_largest_scalar_t X else 1) @
           create_end sd"
        using assms(1) \<open>GenStruct_count (StructDef.fields sd) (True, 0) = Some r\<close> r True Some
        by (simp add: GenStruct_create_table_def create_begin_def create_end_def
              GenOffsetType_def)
      then show ?thesis by (intro exI)
    qed
  qed
qed


text \<open>
  Claim C2, as amended. When \<open>sortbysize\<close> is set (and the largest scalar has 8 bytes)
  the constructor emits the \<^verbatim>\<open>add\<close> calls in four passes, for the sizes 8, 4, 2 and 1;
  a pass has the fields of its size that are not deprecated, from the last declared to
  the first.
\<close>

theorem create_adds_by_size:
  assumes "sortbysize sd" and "sizeof_largest_scalar_t X = 8"
  shows "GenStruct_create_sizes X sd (sizeof_largest_scalar_t X) =
           concat (map
             (\<lambda>size'. concat (map (create_add_call X sd)
                (filter (\<lambda>f. \<not> deprecated f \<and> SizeOf X (base_type (type (value' f))) = size')
                   (rev (StructDef.fields sd)))))
             [8, 4, 2, 1]) \<and>
         (\<forall>code. GenStruct_create_table X sd = Some code \<and> code \<noteq> [] \<longrightarrow>
            (\<exists>params. code = create_begin X sd params @
               GenStruct_create_sizes X sd (sizeof_largest_scalar_t X) @ create_end sd))"
proof (intro conjI allI impI)
  have eq: "\<And>size'. (\<lambda>f. \<not> deprecated f \<and>
                 (\<not> sortbysize sd \<or> size' = SizeOf X (base_type (type (value' f))))) =
            (\<lambda>f. \<not> deprecated f \<and> SizeOf X (base_type (type (value' f))) = size')"
    using assms(1) by auto
  show "GenStruct_create_sizes X sd (sizeof_largest_scalar_t X) =
           concat (map
             (\<lambda>size'. concat (map (create_add_call X sd)
                (filter (\<lambda>f. \<not> deprecated f \<and> SizeOf X (base_type (type (value' f))) = size')
                   (rev (StructDef.fields sd)))))
             [8, 4, 2, 1])"
    by (simp only: assms(2) GenStruct_create_sizes_8 GenStruct_create_pass_closed eq)
next
  fix code
  assume "GenStruct_create_table X sd = Some code \<and> code \<noteq> []"
  then show "\<exists>params. code = create_begin X sd params @
               GenStruct_create_sizes X sd (sizeof_largest_scalar_t X) @ create_end sd"
    using GenStruct_create_table_shape[of X sd code] assms(1) by simp
qed

theorem create_adds_by_size_witness:
  \<open>sortbysize T_sized \<and> sizeof_largest_scalar_t X0 = 8 \<and>
   StructDef.fields T_sized = [F_a, F_b, F_c] \<and>
   GenStruct_create_sizes X0 T_sized (sizeof_largest_scalar_t X0) =
     concat (map
       (\<lambda>size'. concat (map (create_add_call X0 T_sized)
          (filter (\<lambda>f. \<not> deprecated f \<and> SizeOf X0 (base_type (type (value' f))) = size')
             (rev (StructDef.fields T_sized)))))
       [8, 4, 2, 1]) \<and>
   GenStruct_create_sizes X0 T_sized (sizeof_largest_scalar_t X0) =
     create_add_call X0 T_sized F_c @ create_add_call X0 T_sized F_b @
     create_add_call X0 T_sized F_a\<close>
proof -
  have s: "sortbysize T_sized" by (simp add: T_sized_def table_of_def)
  have l: "sizeof_largest_scalar_t X0 = 8" by (simp add: X0_def)
  have f: "StructDef.fields T_sized = [F_a, F_b, F_c]" by (simp add: T_sized_def table_of_def)
  have sz: "SizeOf X0 (base_type (type (value' F_a))) = 4"
    "SizeOf X0 (base_type (type (value' F_b))) = 4"
    "SizeOf X0 (base_type (type (value' F_c))) = 8"
    by (simp_all add: X0_def F_a_def F_b_def F_c_def field_of_def scalar_def)
  have d: "\<not> deprecated F_a" "\<not> deprecated F_b" "\<not> deprecated F_c"
    by (simp_all add: F_a_def F_b_def F_c_def field_of_def)
  from create_adds_by_size[OF s l]
  have c: "GenStruct_create_sizes X0 T_sized (sizeof_largest_scalar_t X0) =
     concat (map
       (\<lambda>size'. concat (map (create_add_call X0 T_sized)
          (filter (\<lambda>f. \<not> deprecated f \<and> SizeOf X0 (base_type (type (value' f))) = size')
             (rev (StructDef.fields T_sized)))))
       [8, 4, 2, 1])"
    by blast
  have "GenStruct_create_sizes X0 T_sized (sizeof_largest_scalar_t X0) =
     create_add_call X0 T_sized F_c @ create_add_call X0 T_sized F_b @
     create_add_call X0 T_sized F_a"
    unfolding c by (simp add: f sz d)
  with s l f c show ?thesis by blast
qed

text \<open>
  Claim C2 as stated keeps the declaration order inside a pass. In the sample table
  \<open>a\<close> is declared before \<open>b\<close>, both of four bytes, and \<open>b\<close> is added before \<open>a\<close>.
\<close>

theorem create_declaration_order_counterexample:
  \<open>sortbysize T_sized \<and> StructDef.fields T_sized = [F_a, F_b, F_c] \<and>
   GenStruct_create_table X0 T_sized =
     Some ''  public static func createSized(_ builder: FlatBufferBuilder,\<newline>      a: Int32 = 0,\<newline>      b: Int32 = 0,\<newline>      c: Int64 = 0) -> Offset<Sized> {\<newline>    builder.startObject(numFields: 3);\<newline>    Sized.addC(builder, c: c);\<newline>    Sized.addB(builder, b: b);\<newline>    Sized.addA(builder, a: a);\<newline>    return Sized.endSized(builder);\<newline>  }\<newline>\<newline>''\<close>
proof -
  have "GenStruct_create_table X0 T_sized =
     Some ''  public static func createSized(_ builder: FlatBufferBuilder,\<newline>      a: Int32 = 0,\<newline>      b: Int32 = 0,\<newline>      c: Int64 = 0) -> Offset<Sized> {\<newline>    builder.startObject(numFields: 3);\<newline>    Sized.addC(builder, c: c);\<newline>    Sized.addB(builder, b: b);\<newline>    Sized.addA(builder, a: a);\<newline>    return Sized.endSized(builder);\<newline>  }\<newline>\<newline>''"
    by code_simp
  moreover have "sortbysize T_sized \<and> StructDef.fields T_sized = [F_a, F_b, F_c]"
    by (simp add: T_sized_def table_of_def)
  ultimately show ?thesis by simp
qed

lemma GenStruct_adds_enumerate:
  "GenStruct_adds X i vec =
     map_option concat
       (those (map (\<lambda>(k, field). if deprecated field then Some [] else GenStruct_add X k field)
                 (enumerate i vec)))"
proof (induction vec arbitrary: i)
  case Nil
  show ?case by simp
next
  case (Cons field vec)
  show ?case
  proof (cases "deprecated field")
    case True
    then show ?thesis
      using Cons.IH[of "i + 1"]
      by (cases "those (map (\<lambda>(k, field). if deprecated field then Some []
                                           else GenStruct_add X k field)
                         (enumerate (Suc i) vec))")
         simp_all
  next
    case False
    then show ?thesis
      using Cons.IH[of "i + 1"]
      by (cases "GenStruct_add X i field";
          cases "those (map (\<lambda>(k, field). if deprecated field then Some []
                                           else GenStruct_add X k field)
                         (enumerate (Suc i) vec))")
         simp_all
  qed
qed

lemma GenStruct_add_slot:
  assumes "GenStruct_add X i field = Some code"
  shows \<open>\<exists>parameter method tail. \<forall>j.
           GenStruct_add X j field =
             Some (''  public static func add'' @ MakeCamel X (FieldDef.name field) True @
                   ''(_ builder: FlatBufferBuilder, '' @ parameter @ '') { builder.add'' @
                   method @ ''('' @ NumToString X (int j) @ '', '' @ tail)\<close>
proof -
  let ?t = "type (value' field)"
  obtain tn where tn: "GenTypeBasic X (DestinationType ?t) True = Some tn"
    using assms
    by (cases "GenTypeBasic X (DestinationType ?t) True")
       (simp_all add: GenStruct_add_def Let_def)
  obtain meth where meth: "GenMethod X ?t = Some meth"
    using assms by (cases "GenMethod X ?t") (simp_all add: GenStruct_add_def Let_def tn)
  obtain dv where dv: "GenDefaultValue X (value' field) False = Some dv"
    using assms
    by (cases "GenDefaultValue X (value' field) False")
       (simp_all add: GenStruct_add_def Let_def tn meth)
  obtain vm where vm: "GenStruct_add_vector X field = Some vm"
    using assms
    by (cases "GenStruct_add_vector X field")
       (simp_all add: GenStruct_add_def Let_def tn meth dv)
  let ?argname = "MakeCamel X (FieldDef.name field) False @
                   (if \<not> IsScalar (base_type ?t) then ''Offset'' else [])"
  let ?passed = "(if \<not> IsScalar (base_type ?t) \<and> base_type ?t \<noteq> BASE_TYPE_UNION
        then ?argname @ ''.value''
        else if enum_def ?t \<noteq> None
        then (if IsScalar (base_type ?t) then ?argname @ ''.rawValue''
              else ''Int('' @ ?argname @ '')'')
        else ?argname)"
  have "\<forall>j. GenStruct_add X j field =
             Some (''  public static func add'' @ MakeCamel X (FieldDef.name field) True @
                   ''(_ builder: FlatBufferBuilder, '' @ (?argname @ '': '' @ tn) @
                   '') { builder.add'' @
                   meth @ ''('' @ NumToString X (int j) @ '', '' @
                   (SourceCastBasic ?t True @ ?passed @ '', '' @ dv @ ''); }\<newline>'' @ vm))"
    by (simp add: GenStruct_add_def Let_def tn meth dv vm)
  then show ?thesis by (intro exI)
qed

text \<open>
  Claim C10. The \<^verbatim>\<open>start\<close> method and the constructor announce as many fields as the
  record declares, deprecated ones included. The loop of the \<^verbatim>\<open>add\<close> methods pairs every
  field with its position in the declaration, emits nothing for a deprecated field, and
  the method of a field writes at the slot of its position: the text of the method
  depends on the position through that argument only.
\<close>

theorem slots_count_deprecated_fields:
  \<open>GenStruct_start X sd =
     ''  public static func start'' @ StructDef.name sd @
     ''(_ builder: FlatBufferBuilder) { builder.startObject(numFields: '' @
     NumToString X (int (length (StructDef.fields sd))) @ ''); }\<newline>'' \<and>
   (\<forall>code. GenStruct_create_table X sd = Some code \<and> code \<noteq> [] \<longrightarrow>
      (\<exists>params. code =
         ''  public static func create'' @ StructDef.name sd @
         ''(_ builder: FlatBufferBuilder'' @ params @ '') -> Offset<'' @ StructDef.name sd @
         ''> {\<newline>    builder.startObject(numFields: '' @
         NumToString X (int (length (StructDef.fields sd))) @ '');\<newline>'' @
         GenStruct_create_sizes X sd
           (if sortbysize sd then sizeof_largest_scalar_t X else 1) @
         create_end sd)) \<and>
   GenStruct_adds X 0 (StructDef.fields sd) =
     map_option concat
       (those (map (\<lambda>(k, field). if deprecated field then Some [] else GenStruct_add X k field)
                 (enumerate 0 (StructDef.fields sd)))) \<and>
   (\<forall>i field code. GenStruct_add X i field = Some code \<longrightarrow>
      (\<exists>parameter method tail. \<forall>j.
         GenStruct_add X j field =
           Some (''  public static func add'' @ MakeCamel X (FieldDef.name field) True @
                 ''(_ builder: FlatBufferBuilder, '' @ parameter @ '') { builder.add'' @
                 method @ ''('' @ NumToString X (int j) @ '', '' @ tail)))\<close>
proof (intro conjI allI impI)
  show "GenStruct_start X sd =
     ''  public static func start'' @ StructDef.name sd @
     ''(_ builder: FlatBufferBuilder) { builder.startObject(numFields: '' @
     NumToString X (int (length (StructDef.fields sd))) @ ''); }\<newline>''"
    by (simp add: GenStruct_start_def)
next
  fix code
  assume "GenStruct_create_table X sd = Some code \<and> code \<noteq> []"
  then show "\<exists>params. code =
         ''  public static func create'' @ StructDef.name sd @
         ''(_ builder: FlatBufferBuilder'' @ params @ '') -> Offset<'' @ StructDef.name sd @
         ''> {\<newline>    builder.startObject(numFields: '' @
         NumToString X (int (length (StructDef.fields sd))) @ '');\<newline>'' @
         GenStruct_create_sizes X sd
           (if sortbysize sd then sizeof_largest_scalar_t X else 1) @
         create_end sd"
    using GenStruct_create_table_shape[of X sd code] by (simp add: create_begin_def)
next
  show "GenStruct_adds X 0 (StructDef.fields sd) =
     map_option concat
       (those (map (\<lambda>(k, field). if deprecated field then Some [] else GenStruct_add X k field)
                 (enumerate 0 (StructDef.fields sd))))"
    by (rule GenStruct_adds_enumerate)
next
  fix i field code
  assume "GenStruct_add X i field = Some code"
  then show "\<exists>parameter method tail. \<forall>j.
         GenStruct_add X j field =
           Some (''  public static func add'' @ MakeCamel X (FieldDef.name field) True @
                 ''(_ builder: FlatBufferBuilder, '' @ parameter @ '') { builder.add'' @
                 method @ ''('' @ NumToString X (int j) @ '', '' @ tail)"
    by (rule GenStruct_add_slot)
qed

theorem slots_count_deprecated_fields_witness:
  \<open>length (StructDef.fields T_evolved) = 2 \<and>
   GenStruct_start X0 T_evolved =
     ''  public static func startEvolved(_ builder: FlatBufferBuilder) { builder.startObject(numFields: 2); }\<newline>'' \<and>
   GenStruct_create_table X0 T_evolved =
     Some ''  public static func createEvolved(_ builder: FlatBufferBuilder,\<newline>      cur: Int16 = 0) -> Offset<Evolved> {\<newline>    builder.startObject(numFields: 2);\<newline>    Evolved.addCur(builder, cur: cur);\<newline>    return Evolved.endEvolved(builder);\<newline>  }\<newline>\<newline>'' \<and>
   GenStruct_adds X0 0 (StructDef.fields T_evolved) =
     Some ''  public static func addCur(_ builder: FlatBufferBuilder, cur: Int16) { builder.addInt16(1, cur, 0); }\<newline>''\<close>
proof -
  have len: "length (StructDef.fields T_evolved) = 2"
    by (simp add: T_evolved_def table_of_def)
  have n: "NumToString X0 2 = ''2''" "StructDef.name T_evolved = ''Evolved''"
    by code_simp+
  have start: "GenStruct_start X0 T_evolved =
     ''  public static func startEvolved(_ builder: FlatBufferBuilder) { builder.startObject(numFields: 2); }\<newline>''"
    using slots_count_deprecated_fields[of X0 T_evolved] by (simp add: len n)
  have create: "GenStruct_create_table X0 T_evolved =
     Some ''  public static func createEvolved(_ builder: FlatBufferBuilder,\<newline>      cur: Int16 = 0) -> Offset<Evolved> {\<newline>    builder.startObject(numFields: 2);\<newline>    Evolved.addCur(builder, cur: cur);\<newline>    return Evolved.endEvolved(builder);\<newline>  }\<newline>\<newline>''"
    by code_simp
  have adds: "GenStruct_adds X0 0 (StructDef.fields T_evolved) =
     Some ''  public static func addCur(_ builder: FlatBufferBuilder, cur: Int16) { builder.addInt16(1, cur, 0); }\<newline>''"
    by code_simp
  from len start create adds show ?thesis by simp
qed

subsection \<open>The flattened constructor of a struct\<close>

lemma those_map_Some:
  "(\<And>x. x \<in> set xs \<Longrightarrow> f x = Some (g x)) \<Longrightarrow> those (map f xs) = Some (map g xs)"
  by (induction xs) simp_all

lemma GenMethod_not_struct:
  assumes "IsStruct t = Some False"
  shows "GenMethod X t =
           Some (if IsScalar (base_type t) then MakeCamel X (swift_typename X (base_type t)) True
                 else ''Offset'')"
  using assms by (simp add: GenMethod_def GenTypeBasic_def)

lemma GenStructBody_struct_body:
  "struct_defs_present sd \<Longrightarrow> GenStructBody X sd p = Some (struct_body X sd p)"
proof (induction X sd p rule: struct_body.induct)
  case (1 X sd p)
  let ?model = "\<lambda>field.
             map_option
               (\<lambda>code.
                  (if padding field \<noteq> 0
                   then ''    builder.'' @ FunctionStart (CHR ''P'') @ ''ad(size: '' @
                        NumToString X (int (padding field)) @ [CHR '')'', CHR '';'', CHR 0x0A]
                   else []) @ code)
               (case IsStruct (type (value' field)) of
                  None \<Rightarrow> None
                | Some True \<Rightarrow>
                    (case struct_def (type (value' field)) of
                       None \<Rightarrow> None
                     | Some sd \<Rightarrow>
                         GenStructBody X sd (p @ (FieldDef.name field @ ''_'')))
                | Some False \<Rightarrow>
                    map_option
                      (\<lambda>method.
                         ''    builder.'' @ FunctionStart (CHR ''P'') @ ''ut'' @ method @ ''('' @
                         SourceCast (type (value' field)) True @
                         p @ MakeCamel X (FieldDef.name field) False @
                         (if IsEnum (type (value' field)) then ''.rawValue'' else []) @
                         [CHR '')'', CHR '';'', CHR 0x0A])
                      (GenMethod X (type (value' field))))"
  let ?spec = "\<lambda>field. pad_line X field @
          (case nested_struct field of
             Some sub \<Rightarrow> struct_body X sub (p @ FieldDef.name field @ ''_'')
           | None \<Rightarrow> put_line X p field)"
  have each: "?model field = Some (?spec field)" if mem: "field \<in> set (rev (StructDef.fields sd))"
    for field
  proof -
    let ?t = "type (value' field)"
    from "1.prems" mem
    have present: "base_type ?t = BASE_TYPE_STRUCT \<longrightarrow> struct_def ?t \<noteq> None"
      and rec: "case nested_struct field of Some sub \<Rightarrow> struct_defs_present sub | None \<Rightarrow> True"
      by (subst (asm) struct_defs_present.simps, simp)+
    show ?thesis
    proof (cases "nested_struct field")
      case None
      have "IsStruct ?t = Some False"
        using None present
        by (auto simp: IsStruct_def nested_struct_def split: option.splits if_splits)
      then show ?thesis
        using None
        by (simp add: GenMethod_not_struct SourceCast_empty pad_line_def put_line_def Let_def)
    next
      case (Some sub)
      then have st: "IsStruct ?t = Some True" "struct_def ?t = Some sub"
        by (auto simp: IsStruct_def nested_struct_def split: option.splits if_splits)
      have "struct_defs_present sub" using rec Some by simp
      then have "GenStructBody X sub (p @ FieldDef.name field @ ''_'') =
                   Some (struct_body X sub (p @ FieldDef.name field @ ''_''))"
        using "1.IH"[OF mem Some] by simp
      then show ?thesis
        using Some st by (simp add: pad_line_def)
    qed
  qed
  have "those (map ?model (rev (StructDef.fields sd))) = Some (map ?spec (rev (StructDef.fields sd)))"
    by (rule those_map_Some) (rule each)
  then show ?case
    by (subst GenStructBody.simps, subst struct_body.simps) (simp add: prep_line_def)
qed


text \<open>
  Claim C3, as amended. \<^verbatim>\<open>GenStructBody\<close> emits the reservation of the record and then
  walks the fields in reverse declaration order; for a field that is a struct it emits
  the body of that struct, with the field's name and an underscore added to the prefix
  of every argument name, and that body starts with the reservation of the nested struct:
  the reservation is emitted once for every record, the outermost and each nested one.
  The body is always generated when no record pointer is null.
\<close>

theorem GenStructBody_nested_records:
  assumes "struct_defs_present sd"
  shows "GenStructBody X sd p = Some (struct_body X sd p) \<and>
         struct_body X sd p =
           prep_line X sd @
           concat (map
             (\<lambda>field. pad_line X field @
                (case nested_struct field of
                   Some sub \<Rightarrow> struct_body X sub (p @ FieldDef.name field @ ''_'')
                 | None \<Rightarrow> put_line X p field))
             (rev (StructDef.fields sd))) \<and>
         (\<forall>field \<in> set (StructDef.fields sd). \<forall>sub. nested_struct field = Some sub \<longrightarrow>
            prefix (prep_line X sub) (struct_body X sub (p @ FieldDef.name field @ ''_'')))"
proof (intro conjI ballI allI impI)
  show "GenStructBody X sd p = Some (struct_body X sd p)"
    using assms by (rule GenStructBody_struct_body)
next
  show "struct_body X sd p =
           prep_line X sd @
           concat (map
             (\<lambda>field. pad_line X field @
                (case nested_struct field of
                   Some sub \<Rightarrow> struct_body X sub (p @ FieldDef.name field @ ''_'')
                 | None \<Rightarrow> put_line X p field))
             (rev (StructDef.fields sd)))"
    by (subst struct_body.simps) simp
next
  fix field sub
  show "prefix (prep_line X sub) (struct_body X sub (p @ FieldDef.name field @ ''_''))"
    by (subst struct_body.simps) simp
qed

theorem GenStructBody_nested_records_witness:
  \<open>struct_defs_present S_outer \<and>
   nested_struct (hd (StructDef.fields S_outer)) = Some S_inner \<and>
   GenStructBody X0 S_outer [] = Some (struct_body X0 S_outer []) \<and>
   struct_body X0 S_outer [] =
     prep_line X0 S_outer @ ''    builder.pad(size: 2);\<newline>    builder.putInt16(y);\<newline>'' @
     prep_line X0 S_inner @ ''    builder.putInt32(inner_x);\<newline>''\<close>
proof -
  have p: "struct_defs_present S_outer" by code_simp
  have n: "nested_struct (hd (StructDef.fields S_outer)) = Some S_inner" by code_simp
  have b: "struct_body X0 S_outer [] =
     prep_line X0 S_outer @ ''    builder.pad(size: 2);\<newline>    builder.putInt16(y);\<newline>'' @
     prep_line X0 S_inner @ ''    builder.putInt32(inner_x);\<newline>''"
    by code_simp
  from GenStructBody_nested_records[OF p, of X0 "[]"] p n b show ?thesis by blast
qed

text \<open>
  Claim C3 as stated has one reservation, for the outermost record. The body of
  \<^verbatim>\<open>Outer\<close>, whose first field is the struct \<^verbatim>\<open>Inner\<close>, has two.
\<close>

theorem GenStructBody_prep_again_counterexample:
  \<open>StructDef.fields S_outer ! 0 = FieldDef ''inner''
      (Value (Type BASE_TYPE_STRUCT BASE_TYPE_NONE (Some S_inner) None) ''0'' 0)
      0 False False False [] None \<and>
   GenStructBody X0 S_outer [] =
     Some ''    builder.prep(size:4, additionalBytes: 8);\<newline>    builder.pad(size: 2);\<newline>    builder.putInt16(y);\<newline>    builder.prep(size:4, additionalBytes: 4);\<newline>    builder.putInt32(inner_x);\<newline>''\<close>
proof -
  have "GenStructBody X0 S_outer [] =
     Some ''    builder.prep(size:4, additionalBytes: 8);\<newline>    builder.pad(size: 2);\<newline>    builder.putInt16(y);\<newline>    builder.prep(size:4, additionalBytes: 4);\<newline>    builder.putInt32(inner_x);\<newline>''"
    by code_simp
  moreover have "StructDef.fields S_outer ! 0 = FieldDef ''inner''
      (Value (Type BASE_TYPE_STRUCT BASE_TYPE_NONE (Some S_inner) None) ''0'' 0)
      0 False False False [] None"
    by (simp add: S_outer_def struct_of_def field_of_def)
  ultimately show ?thesis by simp
qed

end
